theory Spec2Isabelle
  imports Complex_Main "HOL-Library.Word" "HOL-Library.Signed_Division"
begin

unbundle bit_operations_syntax

section \<open>Data model of the alignment task (src/src/task_align.cc)\<close>

subsection \<open>Single-precision arithmetic\<close>

text \<open>
  The C++ code computes in \<^verbatim>\<open>float\<close>. Its arithmetic is kept abstract: a value of
  \<open>'f float_ops\<close> supplies the conversions and the four operations, and every function
  below takes it as its first argument. Whatever is proved therefore holds for any
  rounding behaviour, IEEE-754 binary32 included.
  \<^item> \<open>f_of_int\<close> is the conversion \<^verbatim>\<open>(float)i\<close> (also the implicit one, and the
    literals \<^verbatim>\<open>0.0f\<close>, \<^verbatim>\<open>1.0f\<close>, \<^verbatim>\<open>2.0f\<close>);
  \<^item> \<open>f_to_int\<close> is the conversion \<^verbatim>\<open>(int)f\<close>.
\<close>

record 'f float_ops =
  f_of_int :: "int \<Rightarrow> 'f"
  f_to_int :: "'f \<Rightarrow> int"
  f_add :: "'f \<Rightarrow> 'f \<Rightarrow> 'f"
  f_sub :: "'f \<Rightarrow> 'f \<Rightarrow> 'f"
  f_mul :: "'f \<Rightarrow> 'f \<Rightarrow> 'f"
  f_div :: "'f \<Rightarrow> 'f \<Rightarrow> 'f"

text \<open>\<^verbatim>\<open>static inline float sq(float x) { return x * x; }\<close>\<close>

definition sq :: "'f float_ops \<Rightarrow> 'f \<Rightarrow> 'f" where
  "sq F v = f_mul F v v"

text \<open>
  Exact rational arithmetic, with truncation towards zero for \<^verbatim>\<open>(int)f\<close>: the
  instance at which concrete runs are evaluated.
\<close>

definition trunc_rat :: "rat \<Rightarrow> int" where
  "trunc_rat q = (if 0 \<le> q then \<lfloor>q\<rfloor> else - \<lfloor>- q\<rfloor>)"

definition exact_ops :: "rat float_ops" where
  "exact_ops = \<lparr> f_of_int = of_int, f_to_int = trunc_rat,
                 f_add = (+), f_sub = (-), f_mul = (*), f_div = (/) \<rparr>"

subsection \<open>Images and matrices\<close>

text \<open>
  A \<^verbatim>\<open>cv::Mat\<close> of depth \<^verbatim>\<open>CV_8U\<close>: its dimensions, its channel count and its pixels
  in scan order (row after row), each pixel the list of its channel bytes.
  \<^verbatim>\<open>m.at<uint8_t>(y, x)\<close> and \<^verbatim>\<open>m.at<cv::Vec3b>(y, x)\<close> address pixel
  \<open>y * cols + x\<close>. A matrix is well formed when it holds \<open>rows * cols\<close> pixels of
  \<open>channels\<close> bytes; OpenCV produces no other.
\<close>

record Mat =
  rows :: nat
  cols :: nat
  channels :: nat
  data :: "8 word list list"

definition wf_Mat :: "Mat \<Rightarrow> bool" where
  "wf_Mat m = (length (data m) = rows m * cols m \<and>
               list_all (\<lambda>p. length p = channels m) (data m))"

definition at_u8 :: "Mat \<Rightarrow> nat \<Rightarrow> nat \<Rightarrow> 8 word" where
  "at_u8 m y x = hd (data m ! (y * cols m + x))"

definition at_Vec3b :: "Mat \<Rightarrow> nat \<Rightarrow> nat \<Rightarrow> 8 word list" where
  "at_Vec3b m y x = data m ! (y * cols m + x)"

definition set_u8 :: "Mat \<Rightarrow> nat \<Rightarrow> nat \<Rightarrow> 8 word \<Rightarrow> Mat" where
  "set_u8 m y x v = m\<lparr>data := (data m)[y * cols m + x := [v]]\<rparr>"

definition set_Vec3b :: "Mat \<Rightarrow> nat \<Rightarrow> nat \<Rightarrow> 8 word list \<Rightarrow> Mat" where
  "set_Vec3b m y x v = m\<lparr>data := (data m)[y * cols m + x := v]\<rparr>"

datatype Rect = Rect (rect_x: int) (rect_y: int) (rect_width: int) (rect_height: int)

datatype Size = Size (size_width: int) (size_height: int)

text \<open>
  A \<^verbatim>\<open>cv::Mat\<close> of depth \<^verbatim>\<open>CV_32F\<close> is the list of its rows. The 2x3 affine
  matrix \<^verbatim>\<open>m_transformation\<close> has a fixed shape throughout (created 2x3, copied from
  another task's 2x3 matrix, updated in place by the ECC solver), so it is a pair of
  triples: the rows \<open>(m00, m01, m02)\<close> and \<open>(m10, m11, m12)\<close>.
\<close>

type_synonym 'f fmat = "'f list list"

type_synonym 'f mat23 = "('f \<times> 'f \<times> 'f) \<times> ('f \<times> 'f \<times> 'f)"

definition fat :: "'f fmat \<Rightarrow> nat \<Rightarrow> nat \<Rightarrow> 'f" where
  "fat m i j = m ! i ! j"

definition fput :: "'f fmat \<Rightarrow> nat \<Rightarrow> nat \<Rightarrow> 'f \<Rightarrow> 'f fmat" where
  "fput m i j v = m[i := (m ! i)[j := v]]"


text \<open>
  \<^verbatim>\<open>m.at<float>(0, 2) *= s; m.at<float>(1, 2) *= s;\<close> and the same with \<^verbatim>\<open>/=\<close>.
\<close>

fun scale_translation :: "'f float_ops \<Rightarrow> 'f \<Rightarrow> 'f mat23 \<Rightarrow> 'f mat23" where
  "scale_translation F s ((a, b, c), (d, e, g)) = ((a, b, f_mul F c s), (d, e, f_mul F g s))"

fun unscale_translation :: "'f float_ops \<Rightarrow> 'f \<Rightarrow> 'f mat23 \<Rightarrow> 'f mat23" where
  "unscale_translation F s ((a, b, c), (d, e, g)) = ((a, b, f_div F c s), (d, e, f_div F g s))"

subsection \<open>OpenCV\<close>

datatype InterpolationFlags = INTER_AREA | INTER_CUBIC
datatype BorderTypes = BORDER_REFLECT
datatype MotionTypes = MOTION_AFFINE
datatype DecompTypes = DECOMP_SVD

text \<open>
  \<^verbatim>\<open>cv::TermCriteria(COUNT + EPS, maxCount, epsilon)\<close>: which of the two criteria
  are in force, the iteration bound, and the tolerance as the decimal literal written
  in the source.
\<close>

record TermCriteria =
  crit_COUNT :: bool
  crit_EPS :: bool
  maxCount :: int
  epsilon :: rat

datatype cv_Exception = cv_Exception string

text \<open>
  The numerical routines of OpenCV are parameters of the model.
  \<^item> \<open>cv_resize src dsize fx fy interpolation\<close> is \<^verbatim>\<open>cv::resize\<close>;
  \<^item> \<open>cv_warpAffine src M dsize interpolation inverse_map border\<close> is
    \<^verbatim>\<open>cv::warpAffine\<close>, its flag word given as the interpolation and whether
    \<^verbatim>\<open>cv::WARP_INVERSE_MAP\<close> is set;
  \<^item> \<open>cv_findTransformECC templ input warp motion criteria mask\<close> is
    \<^verbatim>\<open>cv::findTransformECC\<close>, which refines the warp matrix in place: it returns
    the refined matrix, or throws (among other reasons, when the iteration does not
    converge) and leaves some matrix behind;
  \<^item> \<open>cv_solve A b method\<close> is \<^verbatim>\<open>cv::solve\<close>, returning the solution matrix;
  \<^item> \<open>uninit\<close> is what a freshly allocated \<^verbatim>\<open>CV_32F\<close> matrix holds before
    anything is stored in it.
\<close>

record 'f opencv =
  cv_resize :: "Mat \<Rightarrow> Size \<Rightarrow> 'f \<Rightarrow> 'f \<Rightarrow> InterpolationFlags \<Rightarrow> Mat"
  cv_warpAffine :: "Mat \<Rightarrow> 'f mat23 \<Rightarrow> Size \<Rightarrow> InterpolationFlags \<Rightarrow> bool \<Rightarrow> BorderTypes \<Rightarrow> Mat"
  cv_findTransformECC ::
    "Mat \<Rightarrow> Mat \<Rightarrow> 'f mat23 \<Rightarrow> MotionTypes \<Rightarrow> TermCriteria \<Rightarrow> Mat
       \<Rightarrow> (cv_Exception \<times> 'f mat23) + 'f mat23"
  cv_solve :: "'f fmat \<Rightarrow> 'f fmat \<Rightarrow> DecompTypes \<Rightarrow> 'f fmat"
  uninit :: "'f"

text \<open>
  \<^verbatim>\<open>m(roi)\<close>, the view of a sub-rectangle. OpenCV asserts that the rectangle lies
  inside the matrix and throws otherwise.
\<close>

definition roi_inside :: "Mat \<Rightarrow> Rect \<Rightarrow> bool" where
  "roi_inside m r =
     (0 \<le> rect_x r \<and> 0 \<le> rect_width r \<and> rect_x r + rect_width r \<le> int (cols m) \<and>
      0 \<le> rect_y r \<and> 0 \<le> rect_height r \<and> rect_y r + rect_height r \<le> int (rows m))"

definition in_rect :: "Rect \<Rightarrow> nat \<Rightarrow> nat \<Rightarrow> bool" where
  "in_rect r y x =
     (rect_x r \<le> int x \<and> int x < rect_x r + rect_width r \<and>
      rect_y r \<le> int y \<and> int y < rect_y r + rect_height r)"

text \<open>Reading through the view: the pixels of the sub-rectangle, as a matrix.\<close>

definition submat :: "Mat \<Rightarrow> Rect \<Rightarrow> cv_Exception + Mat" where
  "submat m r =
     (if roi_inside m r then
        Inr \<lparr> rows = nat (rect_height r), cols = nat (rect_width r), channels = channels m,
              data = concat (map (\<lambda>y. take (nat (rect_width r))
                                        (drop (y * cols m + nat (rect_x r)) (data m)))
                                 [nat (rect_y r) ..< nat (rect_y r) + nat (rect_height r)]) \<rparr>
      else Inl (cv_Exception ''roi''))"

text \<open>\<^verbatim>\<open>m(roi) = v\<close>: writing one value through the view, on a single-channel matrix.\<close>

definition fill_roi :: "Mat \<Rightarrow> Rect \<Rightarrow> 8 word \<Rightarrow> cv_Exception + Mat" where
  "fill_roi m r v =
     (if roi_inside m r then
        Inr (m\<lparr>data := map (\<lambda>i. if in_rect r (i div cols m) (i mod cols m) then [v]
                                  else data m ! i)
                            [0 ..< length (data m)]\<rparr>)
      else Inl (cv_Exception ''roi''))"

text \<open>\<^verbatim>\<open>m.create(rows, cols, CV_8U); m = 0;\<close>\<close>

definition zeros_u8 :: "nat \<Rightarrow> nat \<Rightarrow> Mat" where
  "zeros_u8 r c = \<lparr> rows = r, cols = c, channels = 1, data = replicate (r * c) [0] \<rparr>"

subsection \<open>Tasks and handles\<close>

text \<open>
  A \<^verbatim>\<open>std::shared_ptr\<close> is null or holds the address of its target together with
  what is read through it. The dependencies of a task have completed before it runs
  and nothing writes to them while it does, so the target is a value. Comparing two
  handles compares their addresses.
\<close>

datatype 'a shared_ptr = Null | Ptr nat 'a

fun ptr_eq :: "'a shared_ptr \<Rightarrow> 'a shared_ptr \<Rightarrow> bool" where
  "ptr_eq Null Null = True"
| "ptr_eq (Ptr a _) (Ptr b _) = (a = b)"
| "ptr_eq _ _ = False"

fun addr :: "'a shared_ptr \<Rightarrow> nat option" where
  "addr Null = None"
| "addr (Ptr a _) = Some a"

record ImgTask =
  basename :: string
  img :: Mat

record Task_LoadImg = ImgTask +
  orig_size :: Size

text \<open>
  The target of \<^verbatim>\<open>m_initial_guess\<close> is another alignment task; \<^verbatim>\<open>task()\<close> reads
  its \<^verbatim>\<open>m_transformation\<close> and nothing else.
\<close>

record 'f Task_Align_solved =
  solved_transformation :: "'f mat23"

text \<open>
  The bits of \<^verbatim>\<open>FocusStack::align_flags_t\<close> are declared in a header that is not
  part of the sources at hand; they are parameters.
\<close>

record align_flags =
  ALIGN_NO_CONTRAST :: "32 word"
  ALIGN_NO_WHITEBALANCE :: "32 word"
  ALIGN_FULL_RESOLUTION :: "32 word"

text \<open>
  What a run does beyond changing the task's members is recorded in \<open>trace\<close>, in the
  order in which it happens: every call of an OpenCV routine (the ECC solver with its
  arguments) and every execution of the photometric correction.
\<close>

datatype 'f event =
    Call_findTransformECC Mat Mat "'f mat23" MotionTypes TermCriteria Mat
  | Call_warpAffine
  | Call_resize
  | Call_solve
  | Run_apply_contrast_whitebalance

record 'f Task_Align =
  m_filename :: string
  m_name :: string
  m_depends_on :: "nat option list"
  m_refgray :: "ImgTask shared_ptr"
  m_refcolor :: "ImgTask shared_ptr"
  m_srcgray :: "ImgTask shared_ptr"
  m_srccolor :: "ImgTask shared_ptr"
  m_initial_guess :: "'f Task_Align_solved shared_ptr"
  m_cropinfo :: "Task_LoadImg shared_ptr"
  m_flags :: "32 word"
  m_transformation :: "'f mat23"
  m_contrast :: "'f fmat"
  m_whitebalance :: "'f fmat"
  m_roi :: Rect
  m_result :: Mat
  trace :: "'f event list"

text \<open>
  A run ends normally with the task's new state, or abnormally: with an exception
  thrown by OpenCV, or by reading through a null handle. In both cases the state that
  the task is left in is part of the outcome.
\<close>

datatype error = Exception cv_Exception | NullDeref

type_synonym 'f outcome = "(error \<times> 'f Task_Align) + 'f Task_Align"

definition and_then :: "'f outcome \<Rightarrow> ('f Task_Align \<Rightarrow> 'f outcome) \<Rightarrow> 'f outcome" where
  "and_then r k = (case r of Inl e \<Rightarrow> Inl e | Inr s \<Rightarrow> k s)"

definition state_of :: "'f outcome \<Rightarrow> 'f Task_Align" where
  "state_of r = (case r of Inl (e, s) \<Rightarrow> s | Inr s \<Rightarrow> s)"

definition emit :: "'f event \<Rightarrow> 'f Task_Align \<Rightarrow> 'f Task_Align" where
  "emit ev s = s\<lparr>trace := trace s @ [ev]\<rparr>"

section \<open>The operations of the alignment task\<close>

text \<open>
  The diagnostic output under \<^verbatim>\<open>m_verbose\<close> changes no member and is left out.
\<close>

subsection \<open>The constructor\<close>

definition identity23 :: "'f float_ops \<Rightarrow> 'f mat23" where
  "identity23 F = ((f_of_int F 1, f_of_int F 0, f_of_int F 0),
                   (f_of_int F 0, f_of_int F 1, f_of_int F 0))"

definition Task_Align_new ::
  "'f float_ops \<Rightarrow> ImgTask shared_ptr \<Rightarrow> ImgTask shared_ptr \<Rightarrow> ImgTask shared_ptr \<Rightarrow>
   ImgTask shared_ptr \<Rightarrow> 'f Task_Align_solved shared_ptr \<Rightarrow> Task_LoadImg shared_ptr \<Rightarrow>
   32 word \<Rightarrow> error + 'f Task_Align" where
  "Task_Align_new F refgray refcolor srcgray srccolor initial_guess cropinfo flags =
     (case srccolor of Null \<Rightarrow> Inl NullDeref | Ptr _ sc \<Rightarrow>
     (case refcolor of Null \<Rightarrow> Inl NullDeref | Ptr _ rc \<Rightarrow>
      Inr \<lparr> m_filename = ''aligned_'' @ basename sc,
            m_name = ''Align '' @ basename sc @ '' to '' @ basename rc,
            m_depends_on =
              [addr refgray, addr refcolor, addr srcgray, addr srccolor]
              @ (if initial_guess \<noteq> Null then [addr initial_guess] else [])
              @ (if cropinfo \<noteq> Null then [addr cropinfo] else []),
            m_refgray = refgray, m_refcolor = refcolor,
            m_srcgray = srcgray, m_srccolor = srccolor,
            m_initial_guess = initial_guess, m_cropinfo = cropinfo,
            m_flags = flags,
            m_transformation = identity23 F,
            m_contrast = [[f_of_int F 1], [f_of_int F 0], [f_of_int F 0],
                          [f_of_int F 0], [f_of_int F 0]],
            m_whitebalance = [[f_of_int F 0], [f_of_int F 1], [f_of_int F 0],
                              [f_of_int F 1], [f_of_int F 0], [f_of_int F 1]],
            m_roi = Rect 0 0 0 0,
            m_result = \<lparr> rows = 0, cols = 0, channels = 1, data = [] \<rparr>,
            trace = [] \<rparr>))"

subsection \<open>\<^verbatim>\<open>apply_transform\<close> and \<^verbatim>\<open>apply_contrast_whitebalance\<close>\<close>

definition apply_transform :: "'f opencv \<Rightarrow> 'f Task_Align \<Rightarrow> Mat \<Rightarrow> bool \<Rightarrow> Mat" where
  "apply_transform cv s src inverse_arg =
     cv_warpAffine cv src (m_transformation s) (Size (int (cols src)) (int (rows src)))
       INTER_CUBIC (\<not> inverse_arg) BORDER_REFLECT"

text \<open>
  The normalised coordinates \<^verbatim>\<open>(y - rows/2.0f) / (float)rows\<close> and
  \<^verbatim>\<open>(x - cols/2.0f) / (float)cols\<close>.
\<close>

definition centered :: "'f float_ops \<Rightarrow> nat \<Rightarrow> nat \<Rightarrow> 'f" where
  "centered F n i =
     f_div F (f_sub F (f_of_int F (int i)) (f_div F (f_of_int F (int n)) (f_of_int F 2)))
             (f_of_int F (int n))"

text \<open>
  \<^verbatim>\<open>c = m_contrast(0) + xd * (m_contrast(1) + m_contrast(2) * xd)
               + yd * (m_contrast(3) + m_contrast(4) * yd)\<close>
\<close>

definition contrast_at :: "'f float_ops \<Rightarrow> 'f fmat \<Rightarrow> nat \<Rightarrow> nat \<Rightarrow> nat \<Rightarrow> nat \<Rightarrow> 'f" where
  "contrast_at F k nrows ncols y x =
     (let yd = centered F nrows y;
          xd = centered F ncols x
      in f_add F
           (f_add F (fat k 0 0) (f_mul F xd (f_add F (fat k 1 0) (f_mul F (fat k 2 0) xd))))
           (f_mul F yd (f_add F (fat k 3 0) (f_mul F (fat k 4 0) yd))))"

text \<open>\<^verbatim>\<open>std::min(255, std::max(0, (int)(f + delta)))\<close>, stored in a \<^verbatim>\<open>uint8_t\<close>.\<close>

definition quantise :: "'f float_ops \<Rightarrow> 'f \<Rightarrow> 'f \<Rightarrow> 8 word" where
  "quantise F f delta = word_of_int (min 255 (max 0 (f_to_int F (f_add F f delta))))"

text \<open>\<^verbatim>\<open>delta += f - v\<close>\<close>

definition carry :: "'f float_ops \<Rightarrow> 'f \<Rightarrow> 'f \<Rightarrow> 8 word \<Rightarrow> 'f" where
  "carry F f delta v = f_add F delta (f_sub F f (f_of_int F (uint v)))"

text \<open>The body of the loop over a grayscale image, at pixel \<open>(y, x)\<close>.\<close>

definition gray_pixel ::
  "'f float_ops \<Rightarrow> 'f fmat \<Rightarrow> nat \<Rightarrow> nat \<Rightarrow> Mat \<times> 'f \<Rightarrow> Mat \<times> 'f" where
  "gray_pixel F k y x st =
     (let im = fst st; delta = snd st;
          c = contrast_at F k (rows im) (cols im) y x;
          v = at_u8 im y x;
          f = f_mul F (f_of_int F (uint v)) c;
          v' = quantise F f delta
      in (set_u8 im y x v', carry F f delta v'))"

text \<open>The body of the loop over a colour image, at pixel \<open>(y, x)\<close>.\<close>

definition color_pixel ::
  "'f float_ops \<Rightarrow> 'f fmat \<Rightarrow> 'f fmat \<Rightarrow> nat \<Rightarrow> nat \<Rightarrow> Mat \<times> 'f \<times> 'f \<times> 'f
   \<Rightarrow> Mat \<times> 'f \<times> 'f \<times> 'f" where
  "color_pixel F k wb y x st =
     (let im = fst st; d0 = fst (snd st); d1 = fst (snd (snd st)); d2 = snd (snd (snd st));
          c = contrast_at F k (rows im) (cols im) y x;
          v = at_Vec3b im y x;
          b = f_add F (f_mul F (f_mul F (f_of_int F (uint (v ! 0))) c) (fat wb 1 0)) (fat wb 0 0);
          g = f_add F (f_mul F (f_mul F (f_of_int F (uint (v ! 1))) c) (fat wb 3 0)) (fat wb 2 0);
          r = f_add F (f_mul F (f_mul F (f_of_int F (uint (v ! 2))) c) (fat wb 5 0)) (fat wb 4 0);
          v0 = quantise F b d0;
          v1 = quantise F g d1;
          v2 = quantise F r d2
      in (set_Vec3b im y x [v0, v1, v2], carry F b d0 v0, carry F g d1 v1, carry F r d2 v2))"

definition apply_contrast_whitebalance :: "'f float_ops \<Rightarrow> 'f Task_Align \<Rightarrow> Mat \<Rightarrow> Mat" where
  "apply_contrast_whitebalance F s im =
     (if channels im = 1 then
        fst (fold (\<lambda>y. fold (\<lambda>x. gray_pixel F (m_contrast s) y x) [0 ..< cols im])
                  [0 ..< rows im] (im, f_of_int F 0))
      else
        fst (fold (\<lambda>y. fold (\<lambda>x. color_pixel F (m_contrast s) (m_whitebalance s) y x)
                              [0 ..< cols im])
                  [0 ..< rows im] (im, f_of_int F 0, f_of_int F 0, f_of_int F 0)))"

subsection \<open>\<^verbatim>\<open>match_transform\<close>\<close>

text \<open>
  \<^verbatim>\<open>cv::Rect(m_roi.x * scale_ratio, m_roi.y * scale_ratio,
                  m_roi.width * scale_ratio, m_roi.height * scale_ratio)\<close>:
  each product is a \<^verbatim>\<open>float\<close>, converted to the \<^verbatim>\<open>int\<close> that the constructor takes.
\<close>

definition scaled_roi :: "'f float_ops \<Rightarrow> 'f \<Rightarrow> Rect \<Rightarrow> Rect" where
  "scaled_roi F scale_ratio r =
     Rect (f_to_int F (f_mul F (f_of_int F (rect_x r)) scale_ratio))
          (f_to_int F (f_mul F (f_of_int F (rect_y r)) scale_ratio))
          (f_to_int F (f_mul F (f_of_int F (rect_width r)) scale_ratio))
          (f_to_int F (f_mul F (f_of_int F (rect_height r)) scale_ratio))"

definition ecc_criteria :: "bool \<Rightarrow> TermCriteria" where
  "ecc_criteria rough =
     (if rough then \<lparr> crit_COUNT = True, crit_EPS = True, maxCount = 25, epsilon = 1 / 100 \<rparr>
      else \<lparr> crit_COUNT = True, crit_EPS = True, maxCount = 50, epsilon = 1 / 1000 \<rparr>)"

definition match_transform ::
  "'f float_ops \<Rightarrow> 'f opencv \<Rightarrow> nat \<Rightarrow> bool \<Rightarrow> 'f Task_Align \<Rightarrow> 'f outcome" where
  "match_transform F cv max_resolution rough s =
     (case m_refgray s of Null \<Rightarrow> Inl (NullDeref, s) | Ptr _ rg \<Rightarrow>
     (let resolution = max (cols (img rg)) (rows (img rg));
          scale_ratio =
            (if resolution \<le> max_resolution then f_of_int F 1
             else f_div F (f_of_int F (int max_resolution)) (f_of_int F (int resolution)));
          ref =
            (if resolution \<le> max_resolution then img rg
             else cv_resize cv (img rg) (Size 0 0) scale_ratio scale_ratio INTER_AREA);
          s1 = (if resolution \<le> max_resolution then s else emit Call_resize s)
      in
     (case m_srcgray s of Null \<Rightarrow> Inl (NullDeref, s1) | Ptr _ sg \<Rightarrow>
     (let src =
            (if resolution \<le> max_resolution then img sg
             else cv_resize cv (img sg) (Size 0 0) scale_ratio scale_ratio INTER_AREA);
          s2 = (if resolution \<le> max_resolution then s1 else emit Call_resize s1)
      in
     (case fill_roi (zeros_u8 (rows ref) (cols ref)) (scaled_roi F scale_ratio (m_roi s)) 255 of
        Inl e \<Rightarrow> Inl (Exception e, s2)
      | Inr roi_mask \<Rightarrow>
     (let src' = apply_contrast_whitebalance F s2 src;
          s3 = emit Run_apply_contrast_whitebalance s2;
          s4 = s3\<lparr>m_transformation := scale_translation F scale_ratio (m_transformation s3)\<rparr>;
          s5 = emit (Call_findTransformECC ref src' (m_transformation s4) MOTION_AFFINE
                       (ecc_criteria rough) roi_mask) s4
      in
     (case cv_findTransformECC cv ref src' (m_transformation s4) MOTION_AFFINE
             (ecc_criteria rough) roi_mask of
        Inl (e, left) \<Rightarrow> Inl (Exception e, s5\<lparr>m_transformation := left\<rparr>)
      | Inr solved \<Rightarrow>
          Inr (s5\<lparr>m_transformation := unscale_translation F scale_ratio solved\<rparr>))))))))"

subsection \<open>\<^verbatim>\<open>match_contrast\<close>\<close>

text \<open>The body of the sampling loop, at grid point \<open>(y, x)\<close>.\<close>

definition contrast_sample ::
  "'f float_ops \<Rightarrow> Mat \<Rightarrow> Mat \<Rightarrow> nat \<Rightarrow> nat \<Rightarrow> nat \<Rightarrow> 'f fmat \<times> 'f fmat \<Rightarrow> 'f fmat \<times> 'f fmat" where
  "contrast_sample F ref src xsamples y x st =
     (let contrast = fst st; positions = snd st;
          idx = y * xsamples + x;
          yd = centered F (rows ref) y;
          xd = centered F (cols ref) x;
          c = f_div F (f_of_int F (uint (at_u8 ref y x))) (f_of_int F (uint (at_u8 src y x)))
      in (fput contrast idx 0 c,
          fput (fput (fput (fput (fput positions idx 0 (f_of_int F 1))
                                 idx 1 xd) idx 2 (sq F xd)) idx 3 yd) idx 4 (sq F yd)))"

text \<open>
  The two matrices \<^verbatim>\<open>contrast(total, 1)\<close> and \<^verbatim>\<open>positions(total, 5)\<close> after the
  loops \<^verbatim>\<open>for y < ysamples, for x < xsamples\<close>.
\<close>

definition contrast_system ::
  "'f float_ops \<Rightarrow> 'f opencv \<Rightarrow> Mat \<Rightarrow> Mat \<Rightarrow> nat \<Rightarrow> nat \<Rightarrow> 'f fmat \<times> 'f fmat" where
  "contrast_system F cv ref src xsamples ysamples =
     fold (\<lambda>y. fold (\<lambda>x. contrast_sample F ref src xsamples y x) [0 ..< xsamples])
          [0 ..< ysamples]
          (replicate (xsamples * ysamples) (replicate 1 (uninit cv)),
           replicate (xsamples * ysamples) (replicate 5 (uninit cv)))"

definition match_contrast :: "'f float_ops \<Rightarrow> 'f opencv \<Rightarrow> 'f Task_Align \<Rightarrow> 'f outcome" where
  "match_contrast F cv s =
     (case m_srcgray s of Null \<Rightarrow> Inl (NullDeref, s) | Ptr _ sg \<Rightarrow>
     (let tmp = apply_transform cv s (img sg) False;
          s1 = emit Call_warpAffine s
      in
     (case m_refgray s of Null \<Rightarrow> Inl (NullDeref, s1) | Ptr _ rg \<Rightarrow>
     (case submat (img rg) (m_roi s) of Inl e \<Rightarrow> Inl (Exception e, s1) | Inr ref_roi \<Rightarrow>
     (let ref = cv_resize cv ref_roi (Size 64 64) (f_of_int F 0) (f_of_int F 0) INTER_AREA;
          s2 = emit Call_resize s1
      in
     (case submat tmp (m_roi s) of Inl e \<Rightarrow> Inl (Exception e, s2) | Inr src_roi \<Rightarrow>
     (let src = cv_resize cv src_roi (Size 64 64) (f_of_int F 0) (f_of_int F 0) INTER_AREA;
          s3 = emit Call_resize s2;
          sys = contrast_system F cv ref src 64 64;
          s4 = emit Call_solve s3
      in Inr (s4\<lparr>m_contrast := cv_solve cv (snd sys) (fst sys) DECOMP_SVD\<rparr>))))))))"

subsection \<open>\<^verbatim>\<open>match_whitebalance\<close>\<close>

definition whitebalance_sample ::
  "'f float_ops \<Rightarrow> Mat \<Rightarrow> Mat \<Rightarrow> nat \<Rightarrow> nat \<Rightarrow> nat \<Rightarrow> 'f fmat \<times> 'f fmat \<Rightarrow> 'f fmat \<times> 'f fmat" where
  "whitebalance_sample F ref src xsamples y x st =
     (let targets = fst st; factors = snd st;
          idx = y * xsamples + x;
          srcpixel = at_Vec3b src y x;
          refpixel = at_Vec3b ref y x
      in (fput (fput (fput targets (idx * 3 + 0) 0 (f_of_int F (uint (refpixel ! 0))))
                     (idx * 3 + 1) 0 (f_of_int F (uint (refpixel ! 1))))
               (idx * 3 + 2) 0 (f_of_int F (uint (refpixel ! 2))),
          fput (fput (fput (fput (fput (fput factors
            (idx * 3 + 0) 0 (f_of_int F 1))
            (idx * 3 + 0) 1 (f_of_int F (uint (srcpixel ! 0))))
            (idx * 3 + 1) 2 (f_of_int F 1))
            (idx * 3 + 1) 3 (f_of_int F (uint (srcpixel ! 1))))
            (idx * 3 + 2) 4 (f_of_int F 1))
            (idx * 3 + 2) 5 (f_of_int F (uint (srcpixel ! 2)))))"

text \<open>
  The two matrices \<^verbatim>\<open>targets(total * 3, 1)\<close> and \<^verbatim>\<open>factors(total * 3, 6)\<close>, the
  latter cleared by \<^verbatim>\<open>factors = 0.0f\<close>, after the loops.
\<close>

definition whitebalance_system ::
  "'f float_ops \<Rightarrow> 'f opencv \<Rightarrow> Mat \<Rightarrow> Mat \<Rightarrow> nat \<Rightarrow> nat \<Rightarrow> 'f fmat \<times> 'f fmat" where
  "whitebalance_system F cv ref src xsamples ysamples =
     fold (\<lambda>y. fold (\<lambda>x. whitebalance_sample F ref src xsamples y x) [0 ..< xsamples])
          [0 ..< ysamples]
          (replicate (xsamples * ysamples * 3) (replicate 1 (uninit cv)),
           replicate (xsamples * ysamples * 3) (replicate 6 (f_of_int F 0)))"

definition match_whitebalance :: "'f float_ops \<Rightarrow> 'f opencv \<Rightarrow> 'f Task_Align \<Rightarrow> 'f outcome" where
  "match_whitebalance F cv s =
     (case m_srccolor s of Null \<Rightarrow> Inl (NullDeref, s) | Ptr _ sc \<Rightarrow>
     (let tmp0 = apply_transform cv s (img sc) False;
          s1 = emit Call_warpAffine s;
          tmp = apply_contrast_whitebalance F s1 tmp0;
          s2 = emit Run_apply_contrast_whitebalance s1
      in
     (case m_refcolor s of Null \<Rightarrow> Inl (NullDeref, s2) | Ptr _ rc \<Rightarrow>
     (case submat (img rc) (m_roi s) of Inl e \<Rightarrow> Inl (Exception e, s2) | Inr ref_roi \<Rightarrow>
     (let ref = cv_resize cv ref_roi (Size 64 64) (f_of_int F 0) (f_of_int F 0) INTER_AREA;
          s3 = emit Call_resize s2
      in
     (case submat tmp (m_roi s) of Inl e \<Rightarrow> Inl (Exception e, s3) | Inr src_roi \<Rightarrow>
     (let src = cv_resize cv src_roi (Size 64 64) (f_of_int F 0) (f_of_int F 0) INTER_AREA;
          s4 = emit Call_resize s3;
          sys = whitebalance_system F cv ref src 64 64;
          s5 = emit Call_solve s4
      in Inr (s5\<lparr>m_whitebalance := cv_solve cv (snd sys) (fst sys) DECOMP_SVD\<rparr>))))))))"

subsection \<open>\<^verbatim>\<open>task\<close>\<close>

definition flag_set :: "32 word \<Rightarrow> 32 word \<Rightarrow> bool" where
  "flag_set flags b = (flags AND b \<noteq> 0)"

text \<open>\<^verbatim>\<open>if (m_initial_guess) m_initial_guess->m_transformation.copyTo(m_transformation);\<close>\<close>

definition seed_transformation :: "'f Task_Align \<Rightarrow> 'f Task_Align" where
  "seed_transformation s =
     (case m_initial_guess s of
        Null \<Rightarrow> s
      | Ptr _ g \<Rightarrow> s\<lparr>m_transformation := solved_transformation g\<rparr>)"

text \<open>
  The block that sets \<^verbatim>\<open>m_roi\<close>. The division \<^verbatim>\<open>expand_x / 2\<close> of C++ truncates
  towards zero.
\<close>

definition compute_roi :: "'f Task_Align \<Rightarrow> 'f outcome" where
  "compute_roi s =
     (case m_cropinfo s of
        Ptr _ ci \<Rightarrow>
          (let expand_x = int (cols (img ci)) - size_width (orig_size ci);
               expand_y = int (rows (img ci)) - size_height (orig_size ci)
           in Inr (s\<lparr>m_roi := Rect (expand_x sdiv 2) (expand_y sdiv 2)
                                    (int (cols (img ci)) - expand_x)
                                    (int (rows (img ci)) - expand_y)\<rparr>))
      | Null \<Rightarrow>
          (case m_srccolor s of
             Null \<Rightarrow> Inl (NullDeref, s)
           | Ptr _ sc \<Rightarrow>
               Inr (s\<lparr>m_roi := Rect 0 0 (int (cols (img sc))) (int (rows (img sc)))\<rparr>)))"

text \<open>The final geometric pass, at full resolution or capped at 2048.\<close>

definition final_match_transform ::
  "'f float_ops \<Rightarrow> 'f opencv \<Rightarrow> align_flags \<Rightarrow> 'f Task_Align \<Rightarrow> 'f outcome" where
  "final_match_transform F cv K s =
     (if flag_set (m_flags s) (ALIGN_FULL_RESOLUTION K) then
        (case m_srccolor s of
           Null \<Rightarrow> Inl (NullDeref, s)
         | Ptr _ sc \<Rightarrow>
             (let res = max (cols (img sc)) (rows (img sc))
              in match_transform F cv res False s))
      else match_transform F cv 2048 False s)"

text \<open>
  \<^verbatim>\<open>apply_transform(m_srccolor->img(), m_result, false)\<close>, followed by
  \<^verbatim>\<open>apply_contrast_whitebalance(m_result)\<close> unless both corrections are switched off.
\<close>

definition produce_result ::
  "'f float_ops \<Rightarrow> 'f opencv \<Rightarrow> align_flags \<Rightarrow> 'f Task_Align \<Rightarrow> 'f outcome" where
  "produce_result F cv K s =
     (case m_srccolor s of
        Null \<Rightarrow> Inl (NullDeref, s)
      | Ptr _ sc \<Rightarrow>
          (let s1 = (emit Call_warpAffine s)\<lparr>m_result := apply_transform cv s (img sc) False\<rparr>
           in if \<not> flag_set (m_flags s1) (ALIGN_NO_CONTRAST K)
                 \<or> \<not> flag_set (m_flags s1) (ALIGN_NO_WHITEBALANCE K)
              then Inr ((emit Run_apply_contrast_whitebalance s1)
                          \<lparr>m_result := apply_contrast_whitebalance F s1 (m_result s1)\<rparr>)
              else Inr s1))"

text \<open>The six \<^verbatim>\<open>reset()\<close> calls that end \<^verbatim>\<open>task()\<close>.\<close>

definition release_dependencies :: "'f Task_Align \<Rightarrow> 'f Task_Align" where
  "release_dependencies s =
     s\<lparr>m_refgray := Null, m_refcolor := Null, m_srcgray := Null, m_srccolor := Null,
       m_initial_guess := Null, m_cropinfo := Null\<rparr>"

text \<open>
  The \<^verbatim>\<open>else\<close> branch of \<^verbatim>\<open>task()\<close> from the first call of
  \<^verbatim>\<open>match_transform\<close> on.
\<close>

definition registration ::
  "'f float_ops \<Rightarrow> 'f opencv \<Rightarrow> align_flags \<Rightarrow> 'f Task_Align \<Rightarrow> 'f outcome" where
  "registration F cv K s0 =
     and_then (match_transform F cv 256 True s0) (\<lambda>s.
     and_then (if \<not> flag_set (m_flags s) (ALIGN_NO_CONTRAST K)
               then match_contrast F cv s else Inr s) (\<lambda>s.
     and_then (if \<not> flag_set (m_flags s) (ALIGN_NO_WHITEBALANCE K)
               then match_whitebalance F cv s else Inr s) (\<lambda>s.
     and_then (final_match_transform F cv K s) (\<lambda>s.
     produce_result F cv K s))))"

text \<open>The \<^verbatim>\<open>if\<close> statement of \<^verbatim>\<open>task()\<close>, and then \<^verbatim>\<open>task()\<close> itself.\<close>

definition task_body ::
  "'f float_ops \<Rightarrow> 'f opencv \<Rightarrow> align_flags \<Rightarrow> 'f Task_Align \<Rightarrow> 'f outcome" where
  "task_body F cv K s =
     (if ptr_eq (m_refcolor s) (m_srccolor s) then
        (case m_srccolor s of
           Null \<Rightarrow> Inl (NullDeref, s)
         | Ptr _ sc \<Rightarrow> Inr (s\<lparr>m_result := img sc\<rparr>))
      else
        and_then (compute_roi (seed_transformation s)) (\<lambda>s. registration F cv K s))"

definition task ::
  "'f float_ops \<Rightarrow> 'f opencv \<Rightarrow> align_flags \<Rightarrow> 'f Task_Align \<Rightarrow> 'f outcome" where
  "task F cv K s = and_then (task_body F cv K s) (\<lambda>s. Inr (release_dependencies s))"

section \<open>Notions used in the statements\<close>

text \<open>
  No step of the registration path touches the handles, the flags, the region of
  interest or the names.
\<close>

definition same_inputs :: "'f Task_Align \<Rightarrow> 'f Task_Align \<Rightarrow> bool" where
  "same_inputs s s' =
     (m_refgray s' = m_refgray s \<and> m_refcolor s' = m_refcolor s \<and>
      m_srcgray s' = m_srcgray s \<and> m_srccolor s' = m_srccolor s \<and>
      m_initial_guess s' = m_initial_guess s \<and> m_cropinfo s' = m_cropinfo s \<and>
      m_flags s' = m_flags s \<and> m_roi s' = m_roi s \<and>
      m_filename s' = m_filename s \<and> m_name s' = m_name s \<and>
      m_depends_on s' = m_depends_on s)"

subsection \<open>A pass, as the specification words it\<close>

definition longer_side :: "Mat \<Rightarrow> nat" where
  "longer_side m = max (cols m) (rows m)"

text \<open>The scale ratio of a pass with the given cap, decided on the reference image.\<close>

definition pass_ratio :: "'f float_ops \<Rightarrow> nat \<Rightarrow> Mat \<Rightarrow> 'f" where
  "pass_ratio F cap ref =
     (if longer_side ref \<le> cap then f_of_int F 1
      else f_div F (f_of_int F (int cap)) (f_of_int F (int (longer_side ref))))"

text \<open>
  An image as a pass sees it: untouched unless the longer side of the reference
  exceeds the cap, and resized by the ratio with area averaging if it does.
\<close>

definition downscaled :: "'f float_ops \<Rightarrow> 'f opencv \<Rightarrow> nat \<Rightarrow> Mat \<Rightarrow> Mat \<Rightarrow> Mat" where
  "downscaled F cv cap ref im =
     (if longer_side ref \<le> cap then im
      else cv_resize cv im (Size 0 0) (pass_ratio F cap ref) (pass_ratio F cap ref) INTER_AREA)"

definition pass_resizes :: "nat \<Rightarrow> Mat \<Rightarrow> 'f event list" where
  "pass_resizes cap ref = (if longer_side ref \<le> cap then [] else [Call_resize, Call_resize])"

text \<open>The mask of the given size that is 255 on a rectangle and 0 elsewhere.\<close>

definition roi_mask :: "nat \<Rightarrow> nat \<Rightarrow> Rect \<Rightarrow> Mat" where
  "roi_mask h w r =
     \<lparr> rows = h, cols = w, channels = 1,
       data = map (\<lambda>i. if in_rect r (i div w) (i mod w) then [255] else [0]) [0 ..< h * w] \<rparr>"

text \<open>The arguments with which a pass calls the ECC solver, as an event.\<close>

definition pass_call ::
  "'f float_ops \<Rightarrow> 'f opencv \<Rightarrow> nat \<Rightarrow> bool \<Rightarrow> 'f Task_Align \<Rightarrow> Mat \<Rightarrow> Mat \<Rightarrow> 'f event" where
  "pass_call F cv cap rough s refimg srcimg =
     Call_findTransformECC
       (downscaled F cv cap refimg refimg)
       (apply_contrast_whitebalance F s (downscaled F cv cap refimg srcimg))
       (scale_translation F (pass_ratio F cap refimg) (m_transformation s))
       MOTION_AFFINE (ecc_criteria rough)
       (roi_mask (rows (downscaled F cv cap refimg refimg)) (cols (downscaled F cv cap refimg refimg))
          (scaled_roi F (pass_ratio F cap refimg) (m_roi s)))"

text \<open>What the solver answers to a recorded call.\<close>

fun answer :: "'f opencv \<Rightarrow> 'f event \<Rightarrow> ((cv_Exception \<times> 'f mat23) + 'f mat23) option" where
  "answer cv (Call_findTransformECC t i w mo c k) = Some (cv_findTransformECC cv t i w mo c k)"
| "answer cv _ = None"

fun is_ecc :: "'f event \<Rightarrow> bool" where
  "is_ecc (Call_findTransformECC t i w mo c k) = True"
| "is_ecc _ = False"

text \<open>The ECC calls of a trace, in order.\<close>

definition ecc_calls :: "'f event list \<Rightarrow> 'f event list" where
  "ecc_calls tr = filter is_ecc tr"

text \<open>The cap of the final pass.\<close>

definition final_cap :: "align_flags \<Rightarrow> 32 word \<Rightarrow> Mat \<Rightarrow> nat" where
  "final_cap K flags srcimg =
     (if flag_set flags (ALIGN_FULL_RESOLUTION K) then longer_side srcimg else 2048)"

text \<open>A trace in which no recorded ECC call is one that the solver answers by throwing.\<close>

definition clean :: "'f opencv \<Rightarrow> 'f event list \<Rightarrow> bool" where
  "clean cv tr = (\<forall>ev \<in> set (ecc_calls tr). \<forall>e left. answer cv ev \<noteq> Some (Inl (e, left)))"

text \<open>
  An outcome is sound for the state it started from: a normal one has a clean trace;
  an abnormal one has left the result alone, and if its trace holds a call that the
  solver answers by throwing, then what is thrown is the error of the outcome and
  what the solver left behind is the matrix of the task.
\<close>

definition sound :: "'f opencv \<Rightarrow> 'f Task_Align \<Rightarrow> 'f outcome \<Rightarrow> bool" where
  "sound cv s out =
     (case out of
        Inr s' \<Rightarrow> clean cv (trace s')
      | Inl (err, s') \<Rightarrow>
          m_result s' = m_result s \<and>
          (\<forall>ev \<in> set (ecc_calls (trace s')). \<forall>e left.
             answer cv ev = Some (Inl (e, left)) \<longrightarrow>
             err = Exception e \<and> m_transformation s' = left))"

section \<open>A concrete setting\<close>

text \<open>
  Stand-ins for the OpenCV routines, on exact rational arithmetic: resizing fills an
  image of the requested size with the first pixel of its input, warping returns its
  input, the least-squares solver returns the neutral contrast model for a system in
  five unknowns and the neutral white balance otherwise, and the ECC solver either
  adds one to both translations or throws.
\<close>

definition stub_resize :: "Mat \<Rightarrow> Size \<Rightarrow> rat \<Rightarrow> rat \<Rightarrow> InterpolationFlags \<Rightarrow> Mat" where
  "stub_resize m dsize fx fy interpolation =
     (let w = (if dsize = Size 0 0 then nat (trunc_rat (of_nat (cols m) * fx))
               else nat (size_width dsize));
          h = (if dsize = Size 0 0 then nat (trunc_rat (of_nat (rows m) * fy))
               else nat (size_height dsize))
      in \<lparr> rows = h, cols = w, channels = channels m,
            data = replicate (h * w) (case data m of [] \<Rightarrow> replicate (channels m) 0
                                                    | p # _ \<Rightarrow> p) \<rparr>)"

definition stub_solve :: "rat fmat \<Rightarrow> rat fmat \<Rightarrow> DecompTypes \<Rightarrow> rat fmat" where
  "stub_solve A b method =
     (if length (hd A) = 5 then [[1], [0], [0], [0], [0]]
      else [[0], [1], [0], [1], [0], [1]])"

definition stub_cv :: "bool \<Rightarrow> rat opencv" where
  "stub_cv converges =
     \<lparr> cv_resize = stub_resize,
       cv_warpAffine = (\<lambda>src M dsize interpolation inverse_map border. src),
       cv_findTransformECC = (\<lambda>templ input warp motion criteria roi_mask.
          if converges then Inr (unscale_translation exact_ops (1 / 2) warp)
          else Inl (cv_Exception ''StsNoConv'', warp)),
       cv_solve = stub_solve,
       uninit = 0 \<rparr>"

definition stub_flags :: align_flags where
  "stub_flags = \<lparr> ALIGN_NO_CONTRAST = 2, ALIGN_NO_WHITEBALANCE = 1,
                  ALIGN_FULL_RESOLUTION = 4 \<rparr>"

definition gray2x2 :: "nat \<Rightarrow> Mat" where
  "gray2x2 v = \<lparr> rows = 2, cols = 2, channels = 1,
                 data = [[of_nat v], [of_nat v + 1], [of_nat v + 2], [of_nat v + 3]] \<rparr>"

definition color2x2 :: "nat \<Rightarrow> Mat" where
  "color2x2 v = \<lparr> rows = 2, cols = 2, channels = 3,
                  data = [[of_nat v, 10, 20], [of_nat v + 1, 11, 21],
                          [of_nat v + 2, 12, 22], [of_nat v + 3, 13, 23]] \<rparr>"

definition image_task :: "string \<Rightarrow> Mat \<Rightarrow> ImgTask" where
  "image_task name im = \<lparr> basename = name, img = im \<rparr>"

text \<open>
  A task aligning the 2x2 image \<^verbatim>\<open>b.jpg\<close> to the 2x2 reference \<^verbatim>\<open>a.jpg\<close>, and
  the task that has the reference as its source too.
\<close>

definition example_task ::
  "rat Task_Align_solved shared_ptr \<Rightarrow> Task_LoadImg shared_ptr \<Rightarrow> 32 word \<Rightarrow> rat Task_Align" where
  "example_task initial_guess cropinfo flags =
     projr (Task_Align_new exact_ops
       (Ptr 1 (image_task ''a.jpg'' (gray2x2 100))) (Ptr 2 (image_task ''a.jpg'' (color2x2 100)))
       (Ptr 3 (image_task ''b.jpg'' (gray2x2 50))) (Ptr 4 (image_task ''b.jpg'' (color2x2 50)))
       initial_guess cropinfo flags)"

definition example_self_task :: "rat Task_Align" where
  "example_self_task =
     projr (Task_Align_new exact_ops
       (Ptr 1 (image_task ''a.jpg'' (gray2x2 100))) (Ptr 2 (image_task ''a.jpg'' (color2x2 100)))
       (Ptr 1 (image_task ''a.jpg'' (gray2x2 100))) (Ptr 2 (image_task ''a.jpg'' (color2x2 100)))
       Null Null 0)"

definition example_cropinfo :: "Task_LoadImg shared_ptr" where
  "example_cropinfo =
     Ptr 6 \<lparr> basename = ''b.jpg'', img = color2x2 50, orig_size = Size 1 1 \<rparr>"

definition example_guess :: "rat Task_Align_solved shared_ptr" where
  "example_guess = Ptr 5 \<lparr> solved_transformation = ((1, 0, 3), (0, 1, 4)) \<rparr>"

definition example_result :: "rat Task_Align" where
  "example_result =
     \<lparr> m_filename = ''aligned_b.jpg'', m_name = ''Align b.jpg to a.jpg'',
       m_depends_on = [Some 1, Some 2, Some 3, Some 4],
       m_refgray = Null, m_refcolor = Null, m_srcgray = Null, m_srccolor = Null,
       m_initial_guess = Null, m_cropinfo = Null, m_flags = 3,
       m_transformation = ((1, 0, 0), (0, 1, 0)),
       m_contrast = [[1], [0], [0], [0], [0]],
       m_whitebalance = [[0], [1], [0], [1], [0], [1]],
       m_roi = Rect 0 0 2 2,
       m_result = color2x2 50,
       trace =
         [Run_apply_contrast_whitebalance,
          Call_findTransformECC (gray2x2 100) (gray2x2 50) ((1, 0, 0), (0, 1, 0)) MOTION_AFFINE
            \<lparr>crit_COUNT = True, crit_EPS = True, maxCount = 25, epsilon = 1 / 100\<rparr>
            \<lparr>rows = 2, cols = 2, channels = 1, data = [[255], [255], [255], [255]]\<rparr>,
          Run_apply_contrast_whitebalance,
          Call_findTransformECC (gray2x2 100) (gray2x2 50) ((1, 0, 0), (0, 1, 0)) MOTION_AFFINE
            \<lparr>crit_COUNT = True, crit_EPS = True, maxCount = 50, epsilon = 1 / 1000\<rparr>
            \<lparr>rows = 2, cols = 2, channels = 1, data = [[255], [255], [255], [255]]\<rparr>,
          Call_warpAffine] \<rparr>"

definition example_failed :: "rat Task_Align" where
  "example_failed =
     (example_task Null Null 3)
       \<lparr> m_roi := Rect 0 0 2 2,
         trace :=
           [Run_apply_contrast_whitebalance,
            Call_findTransformECC (gray2x2 100) (gray2x2 50) ((1, 0, 0), (0, 1, 0)) MOTION_AFFINE
              \<lparr>crit_COUNT = True, crit_EPS = True, maxCount = 25, epsilon = 1 / 100\<rparr>
              \<lparr>rows = 2, cols = 2, channels = 1, data = [[255], [255], [255], [255]]\<rparr>] \<rparr>"

section \<open>What the steps leave unchanged\<close>

lemma same_inputs_refl [simp]: "same_inputs s s"
  by (simp add: same_inputs_def)

lemma same_inputs_trans: "same_inputs s t \<Longrightarrow> same_inputs t u \<Longrightarrow> same_inputs s u"
  by (simp add: same_inputs_def)

lemma state_of_Inr [simp]: "state_of (Inr s) = s"
  by (simp add: state_of_def)

lemma state_of_Inl [simp]: "state_of (Inl (e, s)) = s"
  by (simp add: state_of_def)

lemma and_then_Inr [simp]: "and_then (Inr s) k = k s"
  by (simp add: and_then_def)

lemma and_then_Inl [simp]: "and_then (Inl e) k = Inl e"
  by (simp add: and_then_def)

lemma and_then_eq_Inr: "and_then r k = Inr s' \<longleftrightarrow> (\<exists>t. r = Inr t \<and> k t = Inr s')"
  by (cases r) simp_all

lemma match_transform_frame:
  "match_transform F cv r b s = out \<Longrightarrow>
   same_inputs s (state_of out) \<and>
   m_contrast (state_of out) = m_contrast s \<and>
   m_whitebalance (state_of out) = m_whitebalance s \<and>
   m_result (state_of out) = m_result s"
  unfolding match_transform_def Let_def
  by (auto simp: emit_def same_inputs_def
           split: shared_ptr.splits sum.splits prod.splits)

lemma match_contrast_frame:
  "match_contrast F cv s = out \<Longrightarrow>
   same_inputs s (state_of out) \<and>
   m_transformation (state_of out) = m_transformation s \<and>
   m_whitebalance (state_of out) = m_whitebalance s \<and>
   m_result (state_of out) = m_result s"
  unfolding match_contrast_def Let_def
  by (auto simp: emit_def same_inputs_def
           split: shared_ptr.splits sum.splits prod.splits)

lemma match_whitebalance_frame:
  "match_whitebalance F cv s = out \<Longrightarrow>
   same_inputs s (state_of out) \<and>
   m_transformation (state_of out) = m_transformation s \<and>
   m_contrast (state_of out) = m_contrast s \<and>
   m_result (state_of out) = m_result s"
  unfolding match_whitebalance_def Let_def
  by (auto simp: emit_def same_inputs_def
           split: shared_ptr.splits sum.splits prod.splits)

lemma final_match_transform_frame:
  "final_match_transform F cv K s = out \<Longrightarrow>
   same_inputs s (state_of out) \<and>
   m_contrast (state_of out) = m_contrast s \<and>
   m_whitebalance (state_of out) = m_whitebalance s \<and>
   m_result (state_of out) = m_result s"
proof -
  assume out: "final_match_transform F cv K s = out"
  show ?thesis
  proof (cases "flag_set (m_flags s) (ALIGN_FULL_RESOLUTION K)")
    case False
    with out have "match_transform F cv 2048 False s = out"
      by (simp add: final_match_transform_def)
    then show ?thesis by (rule match_transform_frame)
  next
    case True
    show ?thesis
    proof (cases "m_srccolor s")
      case Null
      with True out have "out = Inl (NullDeref, s)"
        by (simp add: final_match_transform_def)
      then show ?thesis by simp
    next
      case (Ptr a sc)
      with True out
      have "match_transform F cv (max (cols (img sc)) (rows (img sc))) False s = out"
        by (simp add: final_match_transform_def)
      then show ?thesis by (rule match_transform_frame)
    qed
  qed
qed

lemma produce_result_frame:
  "produce_result F cv K s = out \<Longrightarrow>
   same_inputs s (state_of out) \<and>
   m_transformation (state_of out) = m_transformation s \<and>
   m_contrast (state_of out) = m_contrast s \<and>
   m_whitebalance (state_of out) = m_whitebalance s"
  unfolding produce_result_def Let_def
  by (auto simp: emit_def same_inputs_def
           split: shared_ptr.splits sum.splits prod.splits if_splits)

lemma and_then_same_inputs:
  assumes "same_inputs s (state_of r)"
    and "\<And>t. r = Inr t \<Longrightarrow> same_inputs t (state_of (k t))"
  shows "same_inputs s (state_of (and_then r k))"
proof (cases r)
  case (Inl a)
  with assms(1) show ?thesis by simp
next
  case (Inr t)
  with assms show ?thesis by (auto intro: same_inputs_trans)
qed

lemma registration_same_inputs: "same_inputs s (state_of (registration F cv K s))"
  unfolding registration_def
  apply (rule and_then_same_inputs)
   apply (simp add: match_transform_frame)
  apply (rule and_then_same_inputs)
   apply (simp add: match_contrast_frame)
  apply (rule and_then_same_inputs)
   apply (simp add: match_whitebalance_frame)
  apply (rule and_then_same_inputs)
   apply (simp add: final_match_transform_frame)
  apply (simp add: produce_result_frame)
  done

lemma task_distinct:
  "\<not> ptr_eq (m_refcolor s) (m_srccolor s) \<Longrightarrow>
   task F cv K s =
     and_then (and_then (compute_roi (seed_transformation s)) (registration F cv K))
              (\<lambda>s. Inr (release_dependencies s))"
  by (simp add: task_def task_body_def)

lemma state_of_release:
  "state_of (and_then r (\<lambda>s. Inr (release_dependencies s))) =
     (case r of Inl (e, s) \<Rightarrow> s | Inr s \<Rightarrow> release_dependencies s)"
  by (cases r) auto

section \<open>The region of interest\<close>

lemma m_roi_release [simp]: "m_roi (release_dependencies s) = m_roi s"
  by (simp add: release_dependencies_def)

lemma m_roi_after_registration:
  "m_roi (state_of (and_then (registration F cv K s) (\<lambda>s. Inr (release_dependencies s)))) =
   m_roi s"
proof -
  have "same_inputs s (state_of (registration F cv K s))"
    by (rule registration_same_inputs)
  then have "m_roi (state_of (registration F cv K s)) = m_roi s"
    by (simp add: same_inputs_def)
  then show ?thesis
    by (cases "registration F cv K s") auto
qed

text \<open>
  C6. When crop information is supplied, the region of interest with which the
  registration path is entered, and which the task still holds when its run ends
  (normally or not), has its origin at half the padding, the division truncating, and
  the padded size less the padding as its size.
\<close>

theorem roi_excludes_padding:
  assumes "\<not> ptr_eq (m_refcolor s) (m_srccolor s)"
    and "m_cropinfo s = Ptr a ci"
  shows "m_roi (state_of (task F cv K s)) =
           Rect ((int (cols (img ci)) - size_width (orig_size ci)) sdiv 2)
                ((int (rows (img ci)) - size_height (orig_size ci)) sdiv 2)
                (int (cols (img ci)) - (int (cols (img ci)) - size_width (orig_size ci)))
                (int (rows (img ci)) - (int (rows (img ci)) - size_height (orig_size ci))) \<and>
         task_body F cv K s =
           registration F cv K
             ((seed_transformation s)\<lparr>m_roi := m_roi (state_of (task F cv K s))\<rparr>)"
proof -
  let ?R = "Rect ((int (cols (img ci)) - size_width (orig_size ci)) sdiv 2)
                  ((int (rows (img ci)) - size_height (orig_size ci)) sdiv 2)
                  (int (cols (img ci)) - (int (cols (img ci)) - size_width (orig_size ci)))
                  (int (rows (img ci)) - (int (rows (img ci)) - size_height (orig_size ci)))"
  let ?s1 = "(seed_transformation s)\<lparr>m_roi := ?R\<rparr>"
  have crop: "m_cropinfo (seed_transformation s) = Ptr a ci"
    using assms(2) by (simp add: seed_transformation_def split: shared_ptr.splits)
  have roi: "compute_roi (seed_transformation s) = Inr ?s1"
    using crop by (simp add: compute_roi_def Let_def)
  have body: "task_body F cv K s = registration F cv K ?s1"
    using assms(1) roi by (simp add: task_body_def)
  have "m_roi (state_of (task F cv K s)) = m_roi ?s1"
    unfolding task_def body by (rule m_roi_after_registration)
  then have "m_roi (state_of (task F cv K s)) = ?R" by simp
  with body show ?thesis by simp
qed

theorem roi_excludes_padding_witness:
  "\<not> ptr_eq (m_refcolor (example_task Null example_cropinfo 0))
            (m_srccolor (example_task Null example_cropinfo 0)) \<and>
   m_cropinfo (example_task Null example_cropinfo 0)
     = Ptr 6 \<lparr> basename = ''b.jpg'', img = color2x2 50, orig_size = Size 1 1 \<rparr> \<and>
   m_roi (state_of (task exact_ops (stub_cv True) stub_flags
                      (example_task Null example_cropinfo 0))) = Rect 0 0 1 1"
  using roi_excludes_padding [of "example_task Null example_cropinfo 0" 6
          "\<lparr> basename = ''b.jpg'', img = color2x2 50, orig_size = Size 1 1 \<rparr>"
          exact_ops "stub_cv True" stub_flags]
  by (simp add: example_task_def example_cropinfo_def Task_Align_new_def image_task_def
        color2x2_def signed_divide_int_def)

text \<open>
  C10. Without crop information, the region of interest with which the registration
  path is entered, and which the task still holds when its run ends, is the whole
  source colour image.
\<close>

theorem roi_without_cropinfo:
  assumes "\<not> ptr_eq (m_refcolor s) (m_srccolor s)"
    and "m_cropinfo s = Null"
    and "m_srccolor s = Ptr a sc"
  shows "m_roi (state_of (task F cv K s)) =
           Rect 0 0 (int (cols (img sc))) (int (rows (img sc))) \<and>
         task_body F cv K s =
           registration F cv K
             ((seed_transformation s)\<lparr>m_roi := m_roi (state_of (task F cv K s))\<rparr>)"
proof -
  let ?R = "Rect 0 0 (int (cols (img sc))) (int (rows (img sc)))"
  let ?s1 = "(seed_transformation s)\<lparr>m_roi := ?R\<rparr>"
  have crop: "m_cropinfo (seed_transformation s) = Null"
    and src: "m_srccolor (seed_transformation s) = Ptr a sc"
    using assms(2,3) by (simp_all add: seed_transformation_def split: shared_ptr.splits)
  have roi: "compute_roi (seed_transformation s) = Inr ?s1"
    using crop src by (simp add: compute_roi_def)
  have body: "task_body F cv K s = registration F cv K ?s1"
    using assms(1) roi by (simp add: task_body_def)
  have "m_roi (state_of (task F cv K s)) = m_roi ?s1"
    unfolding task_def body by (rule m_roi_after_registration)
  then have "m_roi (state_of (task F cv K s)) = ?R" by simp
  with body show ?thesis by simp
qed

theorem roi_without_cropinfo_witness:
  "\<not> ptr_eq (m_refcolor (example_task Null Null 0)) (m_srccolor (example_task Null Null 0)) \<and>
   m_cropinfo (example_task Null Null 0) = Null \<and>
   m_srccolor (example_task Null Null 0) = Ptr 4 (image_task ''b.jpg'' (color2x2 50)) \<and>
   m_roi (state_of (task exact_ops (stub_cv True) stub_flags (example_task Null Null 0)))
     = Rect 0 0 2 2"
  using roi_without_cropinfo [of "example_task Null Null 0" 4
          "image_task ''b.jpg'' (color2x2 50)" exact_ops "stub_cv True" stub_flags]
  by (simp add: example_task_def Task_Align_new_def image_task_def color2x2_def)

section \<open>The short-circuit path and the release of the dependencies\<close>

lemma match_transform_extends_trace:
  "match_transform F cv r b s = Inr s' \<Longrightarrow> length (trace s) < length (trace s')"
  unfolding match_transform_def Let_def
  by (auto simp: emit_def split: shared_ptr.splits sum.splits prod.splits if_splits)

lemma match_contrast_extends_trace:
  "match_contrast F cv s = Inr s' \<Longrightarrow> length (trace s) < length (trace s')"
  unfolding match_contrast_def Let_def
  by (auto simp: emit_def split: shared_ptr.splits sum.splits prod.splits)

lemma match_whitebalance_extends_trace:
  "match_whitebalance F cv s = Inr s' \<Longrightarrow> length (trace s) < length (trace s')"
  unfolding match_whitebalance_def Let_def
  by (auto simp: emit_def split: shared_ptr.splits sum.splits prod.splits)

lemma produce_result_extends_trace:
  "produce_result F cv K s = Inr s' \<Longrightarrow> length (trace s) < length (trace s')"
  unfolding produce_result_def Let_def
  by (auto simp: emit_def split: shared_ptr.splits if_splits)

text \<open>
  C2. When the source colour handle is the reference colour handle, the run ends
  normally, the result is the image of the source, the trace is what it was (no OpenCV
  routine was called and the photometric correction was not run), and the three
  models are what they were. The trace is evidence of that: each of the four steps
  extends it whenever it runs to completion.
\<close>

theorem identity_short_circuit:
  assumes "ptr_eq (m_refcolor s) (m_srccolor s)"
    and "m_srccolor s = Ptr a sc"
  shows "task F cv K s = Inr (release_dependencies (s\<lparr>m_result := img sc\<rparr>)) \<and>
         m_result (state_of (task F cv K s)) = img sc \<and>
         trace (state_of (task F cv K s)) = trace s \<and>
         m_transformation (state_of (task F cv K s)) = m_transformation s \<and>
         m_contrast (state_of (task F cv K s)) = m_contrast s \<and>
         m_whitebalance (state_of (task F cv K s)) = m_whitebalance s \<and>
         (\<forall>t t' r b. match_transform F cv r b t = Inr t' \<longrightarrow> length (trace t) < length (trace t')) \<and>
         (\<forall>t t'. match_contrast F cv t = Inr t' \<longrightarrow> length (trace t) < length (trace t')) \<and>
         (\<forall>t t'. match_whitebalance F cv t = Inr t' \<longrightarrow> length (trace t) < length (trace t')) \<and>
         (\<forall>t t'. produce_result F cv K t = Inr t' \<longrightarrow> length (trace t) < length (trace t'))"
proof -
  have run: "task F cv K s = Inr (release_dependencies (s\<lparr>m_result := img sc\<rparr>))"
    using assms by (simp add: task_def task_body_def)
  show ?thesis
    unfolding run
    by (simp add: release_dependencies_def match_transform_extends_trace
          match_contrast_extends_trace match_whitebalance_extends_trace
          produce_result_extends_trace)
qed

theorem identity_short_circuit_witness:
  "ptr_eq (m_refcolor example_self_task) (m_srccolor example_self_task) \<and>
   m_srccolor example_self_task = Ptr 2 (image_task ''a.jpg'' (color2x2 100)) \<and>
   m_result (state_of (task exact_ops (stub_cv True) stub_flags example_self_task))
     = color2x2 100 \<and>
   trace (state_of (task exact_ops (stub_cv True) stub_flags example_self_task)) = []"
  using identity_short_circuit [of example_self_task 2 "image_task ''a.jpg'' (color2x2 100)"
          exact_ops "stub_cv True" stub_flags]
  by (simp add: example_self_task_def Task_Align_new_def image_task_def
        release_dependencies_def)

text \<open>
  C8. When a run ends normally, on either path, the six handles are null and
  everything else, the result among it, is as the body of the task left it.
\<close>

theorem dependencies_released:
  assumes "task F cv K s = Inr s'"
  shows "m_refgray s' = Null \<and> m_refcolor s' = Null \<and> m_srcgray s' = Null \<and>
         m_srccolor s' = Null \<and> m_initial_guess s' = Null \<and> m_cropinfo s' = Null \<and>
         task_body F cv K s = Inr (state_of (task_body F cv K s)) \<and>
         m_result s' = m_result (state_of (task_body F cv K s)) \<and>
         s' = (state_of (task_body F cv K s))
                \<lparr>m_refgray := Null, m_refcolor := Null, m_srcgray := Null,
                 m_srccolor := Null, m_initial_guess := Null, m_cropinfo := Null\<rparr>"
proof -
  from assms obtain t where t: "task_body F cv K s = Inr t" and s': "s' = release_dependencies t"
    by (auto simp: task_def and_then_eq_Inr)
  show ?thesis
    unfolding t s' by (simp add: release_dependencies_def)
qed

lemma example_run:
  "task exact_ops (stub_cv True) stub_flags (example_task Null Null 3) = Inr example_result"
  by code_simp

lemma example_self_run:
  "task exact_ops (stub_cv True) stub_flags example_self_task =
     Inr (release_dependencies (example_self_task\<lparr>m_result := color2x2 100\<rparr>))"
  by code_simp

theorem dependencies_released_witness:
  "task exact_ops (stub_cv True) stub_flags (example_task Null Null 3) = Inr example_result \<and>
   m_refgray example_result = Null \<and> m_refcolor example_result = Null \<and>
   m_srcgray example_result = Null \<and> m_srccolor example_result = Null \<and>
   m_initial_guess example_result = Null \<and> m_cropinfo example_result = Null \<and>
   m_result example_result = color2x2 50 \<and>
   m_result (release_dependencies (example_self_task\<lparr>m_result := color2x2 100\<rparr>))
     = color2x2 100 \<and>
   m_srccolor (release_dependencies (example_self_task\<lparr>m_result := color2x2 100\<rparr>)) = Null"
  using dependencies_released [OF example_run] dependencies_released [OF example_self_run]
  by (simp add: example_result_def release_dependencies_def example_run)

section \<open>The geometric passes\<close>

lemma fill_roi_zeros:
  "fill_roi (zeros_u8 h w) r 255 =
     (if roi_inside (zeros_u8 h w) r then Inr (roi_mask h w r) else Inl (cv_Exception ''roi''))"
  by (simp add: fill_roi_def zeros_u8_def roi_mask_def)



lemma apply_contrast_whitebalance_trace [simp]:
  "apply_contrast_whitebalance F (s\<lparr>trace := tr\<rparr>) im = apply_contrast_whitebalance F s im"
  by (simp add: apply_contrast_whitebalance_def)

lemma apply_contrast_whitebalance_transformation [simp]:
  "apply_contrast_whitebalance F (s\<lparr>m_transformation := m\<rparr>) im
     = apply_contrast_whitebalance F s im"
  by (simp add: apply_contrast_whitebalance_def)

subsection \<open>\<^verbatim>\<open>match_transform\<close>, case by case\<close>

lemma match_transform_unfold:
  assumes "m_refgray s = Ptr a rg" and "m_srcgray s = Ptr b sg"
  shows "match_transform F cv cap rough s =
     (if \<not> roi_inside (zeros_u8 (rows (downscaled F cv cap (img rg) (img rg)))
                               (cols (downscaled F cv cap (img rg) (img rg))))
                      (scaled_roi F (pass_ratio F cap (img rg)) (m_roi s))
      then Inl (Exception (cv_Exception ''roi''),
                s\<lparr>trace := trace s @ pass_resizes cap (img rg)\<rparr>)
      else
        (case answer cv (pass_call F cv cap rough s (img rg) (img sg)) of
           Some (Inl (e, left)) \<Rightarrow>
             Inl (Exception e,
                  s\<lparr>m_transformation := left,
                    trace := trace s @ pass_resizes cap (img rg)
                             @ [Run_apply_contrast_whitebalance,
                                pass_call F cv cap rough s (img rg) (img sg)]\<rparr>)
         | Some (Inr solved) \<Rightarrow>
             Inr (s\<lparr>m_transformation :=
                       unscale_translation F (pass_ratio F cap (img rg)) solved,
                     trace := trace s @ pass_resizes cap (img rg)
                              @ [Run_apply_contrast_whitebalance,
                                 pass_call F cv cap rough s (img rg) (img sg)]\<rparr>)
         | None \<Rightarrow> Inl (NullDeref, s)))"
proof (cases "longer_side (img rg) \<le> cap")
  case True
  then have le: "(max (cols (img rg)) (rows (img rg)) \<le> cap) = True"
    and ls: "(longer_side (img rg) \<le> cap) = True"
    by (simp_all add: longer_side_def)
  show ?thesis
    unfolding match_transform_def Let_def assms shared_ptr.case fill_roi_zeros
      pass_call_def pass_ratio_def downscaled_def pass_resizes_def le ls if_True
    by (simp add: emit_def split: sum.splits prod.splits)
next
  case False
  then have le: "(max (cols (img rg)) (rows (img rg)) \<le> cap) = False"
    and ls: "(longer_side (img rg) \<le> cap) = False"
    by (simp_all add: longer_side_def)
  show ?thesis
    unfolding match_transform_def Let_def assms shared_ptr.case fill_roi_zeros
      pass_call_def pass_ratio_def downscaled_def pass_resizes_def le ls if_False
    by (simp add: emit_def longer_side_def del: max.bounded_iff split: sum.splits prod.splits)
qed

lemma match_transform_null_ref:
  "m_refgray s = Null \<Longrightarrow> match_transform F cv cap rough s = Inl (NullDeref, s)"
  by (simp add: match_transform_def)

lemma match_transform_null_src:
  "m_refgray s = Ptr a rg \<Longrightarrow> m_srcgray s = Null \<Longrightarrow>
   match_transform F cv cap rough s =
     Inl (NullDeref, s\<lparr>trace := trace s @ (if longer_side (img rg) \<le> cap then []
                                                else [Call_resize])\<rparr>)"
  by (simp add: match_transform_def Let_def longer_side_def emit_def del: max.bounded_iff)

lemma ecc_calls_append [simp]: "ecc_calls (xs @ ys) = ecc_calls xs @ ecc_calls ys"
  by (simp add: ecc_calls_def)

lemma ecc_calls_Nil [simp]: "ecc_calls [] = []"
  by (simp add: ecc_calls_def)

lemma ecc_calls_Cons [simp]:
  "ecc_calls (ev # tr) = (if is_ecc ev then ev # ecc_calls tr else ecc_calls tr)"
  by (simp add: ecc_calls_def)

lemma ecc_calls_pass_resizes [simp]: "ecc_calls (pass_resizes cap im) = []"
  by (simp add: pass_resizes_def)

lemma is_ecc_pass_call [simp]: "is_ecc (pass_call F cv cap rough s refimg srcimg)"
  by (simp add: pass_call_def)

lemma match_contrast_ecc_calls:
  "match_contrast F cv s = out \<Longrightarrow> ecc_calls (trace (state_of out)) = ecc_calls (trace s)"
  unfolding match_contrast_def Let_def
  by (auto simp: emit_def split: shared_ptr.splits sum.splits prod.splits)

lemma match_whitebalance_ecc_calls:
  "match_whitebalance F cv s = out \<Longrightarrow> ecc_calls (trace (state_of out)) = ecc_calls (trace s)"
  unfolding match_whitebalance_def Let_def
  by (auto simp: emit_def split: shared_ptr.splits sum.splits prod.splits)

lemma produce_result_ecc_calls:
  "produce_result F cv K s = out \<Longrightarrow> ecc_calls (trace (state_of out)) = ecc_calls (trace s)"
  unfolding produce_result_def Let_def
  by (auto simp: emit_def split: shared_ptr.splits if_splits)


text \<open>A pass that returns has found the region of interest inside and the solver willing.\<close>

lemma match_transform_Inr:
  assumes "match_transform F cv cap rough s = Inr s'"
    and "m_refgray s = Ptr a rg" and "m_srcgray s = Ptr b sg"
  shows "\<exists>solved.
           answer cv (pass_call F cv cap rough s (img rg) (img sg)) = Some (Inr solved) \<and>
           s' = s\<lparr>m_transformation := unscale_translation F (pass_ratio F cap (img rg)) solved,
                  trace := trace s @ pass_resizes cap (img rg)
                           @ [Run_apply_contrast_whitebalance,
                              pass_call F cv cap rough s (img rg) (img sg)]\<rparr>"
  using assms(1) unfolding match_transform_unfold [OF assms(2,3)]
  by (auto split: if_splits option.splits sum.splits prod.splits)

lemma match_transform_Inr_ptrs:
  assumes "match_transform F cv cap rough s = Inr s'"
  shows "\<exists>a rg b sg. m_refgray s = Ptr a rg \<and> m_srcgray s = Ptr b sg"
proof (cases "m_refgray s")
  case Null
  with assms show ?thesis by (simp add: match_transform_null_ref)
next
  case (Ptr a rg)
  show ?thesis
  proof (cases "m_srcgray s")
    case Null
    with assms Ptr show ?thesis by (simp add: match_transform_null_src)
  next
    case (Ptr b sg)
    with \<open>m_refgray s = Ptr a rg\<close> show ?thesis by blast
  qed
qed

lemma registration_Inr:
  assumes "registration F cv K s0 = Inr s5"
  shows "\<exists>s1 s2 s3 s4.
           match_transform F cv 256 True s0 = Inr s1 \<and>
           (if \<not> flag_set (m_flags s1) (ALIGN_NO_CONTRAST K)
            then match_contrast F cv s1 else Inr s1) = Inr s2 \<and>
           (if \<not> flag_set (m_flags s2) (ALIGN_NO_WHITEBALANCE K)
            then match_whitebalance F cv s2 else Inr s2) = Inr s3 \<and>
           final_match_transform F cv K s3 = Inr s4 \<and>
           produce_result F cv K s4 = Inr s5"
  using assms unfolding registration_def and_then_eq_Inr by blast

subsection \<open>The registration path when it runs to completion\<close>

lemma contrast_step:
  assumes "(if c then match_contrast F cv s else Inr s) = Inr s'"
  shows "same_inputs s s' \<and> m_transformation s' = m_transformation s \<and>
         m_whitebalance s' = m_whitebalance s \<and> m_result s' = m_result s \<and>
         ecc_calls (trace s') = ecc_calls (trace s)"
proof (cases c)
  case True
  with assms have run: "match_contrast F cv s = Inr s'" by simp
  from match_contrast_frame [OF run] match_contrast_ecc_calls [OF run]
  show ?thesis by simp
next
  case False
  with assms show ?thesis by simp
qed

lemma whitebalance_step:
  assumes "(if c then match_whitebalance F cv s else Inr s) = Inr s'"
  shows "same_inputs s s' \<and> m_transformation s' = m_transformation s \<and>
         m_contrast s' = m_contrast s \<and> m_result s' = m_result s \<and>
         ecc_calls (trace s') = ecc_calls (trace s)"
proof (cases c)
  case True
  with assms have run: "match_whitebalance F cv s = Inr s'" by simp
  from match_whitebalance_frame [OF run] match_whitebalance_ecc_calls [OF run]
  show ?thesis by simp
next
  case False
  with assms show ?thesis by simp
qed

lemma final_match_transform_eq:
  "m_srccolor s = Ptr c sc \<Longrightarrow>
   final_match_transform F cv K s
     = match_transform F cv (final_cap K (m_flags s) (img sc)) False s"
  by (simp add: final_match_transform_def final_cap_def longer_side_def Let_def)

lemma registration_passes:
  assumes run: "registration F cv K s0 = Inr s5"
    and rg: "m_refgray s0 = Ptr a rg" and sg: "m_srcgray s0 = Ptr b sg"
    and sc: "m_srccolor s0 = Ptr c sc"
  shows "\<exists>e1 e2 s3.
     answer cv (pass_call F cv 256 True s0 (img rg) (img sg)) = Some (Inr e1) \<and>
     m_contrast s3 = m_contrast s5 \<and> m_whitebalance s3 = m_whitebalance s5 \<and>
     m_roi s3 = m_roi s0 \<and>
     m_transformation s3 = unscale_translation F (pass_ratio F 256 (img rg)) e1 \<and>
     answer cv (pass_call F cv (final_cap K (m_flags s0) (img sc)) False s3 (img rg) (img sg))
       = Some (Inr e2) \<and>
     m_transformation s5
       = unscale_translation F (pass_ratio F (final_cap K (m_flags s0) (img sc)) (img rg)) e2 \<and>
     ecc_calls (trace s5) =
       ecc_calls (trace s0) @
       [pass_call F cv 256 True s0 (img rg) (img sg),
        pass_call F cv (final_cap K (m_flags s0) (img sc)) False s3 (img rg) (img sg)] \<and>
     same_inputs s0 s5"
proof -
  from registration_Inr [OF run] obtain s1 s2 s3 s4 where
    st1: "match_transform F cv 256 True s0 = Inr s1" and
    st2: "(if \<not> flag_set (m_flags s1) (ALIGN_NO_CONTRAST K)
           then match_contrast F cv s1 else Inr s1) = Inr s2" and
    st3: "(if \<not> flag_set (m_flags s2) (ALIGN_NO_WHITEBALANCE K)
           then match_whitebalance F cv s2 else Inr s2) = Inr s3" and
    st4: "final_match_transform F cv K s3 = Inr s4" and
    st5: "produce_result F cv K s4 = Inr s5"
    by blast
  from match_transform_Inr [OF st1 rg sg] obtain e1 where
    a1: "answer cv (pass_call F cv 256 True s0 (img rg) (img sg)) = Some (Inr e1)" and
    s1: "s1 = s0\<lparr>m_transformation := unscale_translation F (pass_ratio F 256 (img rg)) e1,
                 trace := trace s0 @ pass_resizes 256 (img rg)
                          @ [Run_apply_contrast_whitebalance,
                             pass_call F cv 256 True s0 (img rg) (img sg)]\<rparr>"
    by blast
  have f1: "same_inputs s0 s1"
    and t1: "m_transformation s1 = unscale_translation F (pass_ratio F 256 (img rg)) e1"
    and c1: "ecc_calls (trace s1)
               = ecc_calls (trace s0) @ [pass_call F cv 256 True s0 (img rg) (img sg)]"
    by (simp_all add: s1 same_inputs_def)
  note f2 = contrast_step [OF st2]
  note f3 = whitebalance_step [OF st3]
  have f03: "same_inputs s0 s3"
    using f1 f2 f3 by (blast intro: same_inputs_trans)
  then have rg3: "m_refgray s3 = Ptr a rg" and sg3: "m_srcgray s3 = Ptr b sg"
    and sc3: "m_srccolor s3 = Ptr c sc" and fl3: "m_flags s3 = m_flags s0"
    and roi3: "m_roi s3 = m_roi s0"
    using rg sg sc by (simp_all add: same_inputs_def)
  have t3: "m_transformation s3 = unscale_translation F (pass_ratio F 256 (img rg)) e1"
    using t1 f2 f3 by simp
  have c3: "ecc_calls (trace s3)
              = ecc_calls (trace s0) @ [pass_call F cv 256 True s0 (img rg) (img sg)]"
    using c1 f2 f3 by simp
  let ?cap = "final_cap K (m_flags s0) (img sc)"
  have st4': "match_transform F cv ?cap False s3 = Inr s4"
    using st4 final_match_transform_eq [OF sc3, of F cv K] fl3 by simp
  from match_transform_Inr [OF st4' rg3 sg3] obtain e2 where
    a2: "answer cv (pass_call F cv ?cap False s3 (img rg) (img sg)) = Some (Inr e2)" and
    s4: "s4 = s3\<lparr>m_transformation := unscale_translation F (pass_ratio F ?cap (img rg)) e2,
                 trace := trace s3 @ pass_resizes ?cap (img rg)
                          @ [Run_apply_contrast_whitebalance,
                             pass_call F cv ?cap False s3 (img rg) (img sg)]\<rparr>"
    by blast
  have f4: "same_inputs s3 s4"
    and t4: "m_transformation s4 = unscale_translation F (pass_ratio F ?cap (img rg)) e2"
    and k4: "m_contrast s4 = m_contrast s3" "m_whitebalance s4 = m_whitebalance s3"
    and c4: "ecc_calls (trace s4)
               = ecc_calls (trace s3) @ [pass_call F cv ?cap False s3 (img rg) (img sg)]"
    by (simp_all add: s4 same_inputs_def)
  from produce_result_frame [OF st5] produce_result_ecc_calls [OF st5]
  have f5: "same_inputs s4 s5" and t5: "m_transformation s5 = m_transformation s4"
    and k5: "m_contrast s5 = m_contrast s4" "m_whitebalance s5 = m_whitebalance s4"
    and c5: "ecc_calls (trace s5) = ecc_calls (trace s4)"
    by simp_all
  have f05: "same_inputs s0 s5"
    using f03 f4 f5 by (blast intro: same_inputs_trans)
  show ?thesis
    apply (rule exI [of _ e1], rule exI [of _ e2], rule exI [of _ s3])
    using a1 a2 t3 roi3 f05 by (simp add: k4 k5 t4 t5 c3 c4 c5)
qed

lemma produce_result_Inr_ptr:
  "produce_result F cv K s = Inr s' \<Longrightarrow> \<exists>c sc. m_srccolor s = Ptr c sc"
  by (cases "m_srccolor s") (simp_all add: produce_result_def)

lemma registration_Inr_ptrs:
  assumes run: "registration F cv K s0 = Inr s5"
  shows "\<exists>a rg b sg c sc.
           m_refgray s0 = Ptr a rg \<and> m_srcgray s0 = Ptr b sg \<and> m_srccolor s0 = Ptr c sc"
proof -
  from registration_Inr [OF run] obtain s1 s2 s3 s4 where
    st1: "match_transform F cv 256 True s0 = Inr s1" and
    st2: "(if \<not> flag_set (m_flags s1) (ALIGN_NO_CONTRAST K)
           then match_contrast F cv s1 else Inr s1) = Inr s2" and
    st3: "(if \<not> flag_set (m_flags s2) (ALIGN_NO_WHITEBALANCE K)
           then match_whitebalance F cv s2 else Inr s2) = Inr s3" and
    st4: "final_match_transform F cv K s3 = Inr s4" and
    st5: "produce_result F cv K s4 = Inr s5"
    by blast
  from match_transform_frame [OF st1] contrast_step [OF st2] whitebalance_step [OF st3]
    final_match_transform_frame [OF st4]
  have "same_inputs s0 s4"
    by (auto intro: same_inputs_trans)
  then have "m_srccolor s0 = m_srccolor s4"
    by (simp add: same_inputs_def)
  with produce_result_Inr_ptr [OF st5] match_transform_Inr_ptrs [OF st1]
  show ?thesis by auto
qed

lemma seed_transformation_frame:
  "seed_transformation s = s\<lparr>m_transformation := m_transformation (seed_transformation s)\<rparr>"
  by (simp add: seed_transformation_def split: shared_ptr.splits)

lemma compute_roi_frame:
  "compute_roi t = Inr s0 \<Longrightarrow> s0 = t\<lparr>m_roi := m_roi s0\<rparr>"
  by (auto simp: compute_roi_def Let_def split: shared_ptr.splits)

lemma task_Inr_distinct:
  assumes "\<not> ptr_eq (m_refcolor s) (m_srccolor s)" and "task F cv K s = Inr s'"
  shows "\<exists>s0 s5. compute_roi (seed_transformation s) = Inr s0 \<and>
           s0 = s\<lparr>m_transformation := m_transformation (seed_transformation s),
                  m_roi := m_roi s0\<rparr> \<and>
           registration F cv K s0 = Inr s5 \<and> s' = release_dependencies s5"
proof -
  from assms obtain s0 s5 where
    roi: "compute_roi (seed_transformation s) = Inr s0" and
    reg: "registration F cv K s0 = Inr s5" and s': "s' = release_dependencies s5"
    by (auto simp: task_def task_body_def and_then_eq_Inr)
  from compute_roi_frame [OF roi] seed_transformation_frame [of s]
  have "s0 = s\<lparr>m_transformation := m_transformation (seed_transformation s),
                m_roi := m_roi s0\<rparr>"
    by simp
  with roi reg s' show ?thesis by blast
qed




lemma example_ptrs:
  "\<not> ptr_eq (m_refcolor (example_task g c fl)) (m_srccolor (example_task g c fl))"
  "m_refgray (example_task g c fl) = Ptr 1 (image_task ''a.jpg'' (gray2x2 100))"
  "m_srcgray (example_task g c fl) = Ptr 3 (image_task ''b.jpg'' (gray2x2 50))"
  "m_srccolor (example_task g c fl) = Ptr 4 (image_task ''b.jpg'' (color2x2 50))"
  "trace (example_task g c fl) = []"
  by (simp_all add: example_task_def Task_Align_new_def)


section \<open>The starting transformation\<close>

lemma Task_Align_new_Inr:
  assumes "Task_Align_new F refgray refcolor srcgray srccolor initial_guess cropinfo flags = Inr s"
  shows "m_transformation s = identity23 F" and "trace s = []"
    and "m_initial_guess s = initial_guess" and "m_refcolor s = refcolor"
    and "m_srccolor s = srccolor" and "m_refgray s = refgray" and "m_srcgray s = srcgray"
  using assms by (auto simp: Task_Align_new_def split: shared_ptr.splits)

text \<open>
  C7. A freshly constructed task holds the identity matrix. On distinct images, the
  state with which the registration path is entered holds the transformation of the
  initial guess if one was supplied and the identity otherwise, and no OpenCV routine
  has been called by then; in a run that ends normally, the first ECC call starts from
  that matrix, its translation entries multiplied by the ratio of the rough pass.
\<close>

lemma compute_roi_fields:
  "compute_roi t = Inr s0 \<Longrightarrow>
   m_transformation s0 = m_transformation t \<and> trace s0 = trace t"
  by (auto simp: compute_roi_def Let_def split: shared_ptr.splits)

theorem starting_transformation:
  assumes "Task_Align_new F refgray refcolor srcgray srccolor initial_guess cropinfo flags
             = Inr s"
    and "\<not> ptr_eq refcolor srccolor"
  shows
    "m_transformation s =
       ((f_of_int F 1, f_of_int F 0, f_of_int F 0), (f_of_int F 0, f_of_int F 1, f_of_int F 0)) \<and>
     (let start = (case initial_guess of
                     Null \<Rightarrow> m_transformation s
                   | Ptr _ g \<Rightarrow> solved_transformation g)
      in (\<forall>s0. compute_roi (seed_transformation s) = Inr s0 \<longrightarrow>
                  task_body F cv K s = registration F cv K s0 \<and>
                  m_transformation s0 = start \<and> trace s0 = []) \<and>
         (\<forall>s' a rg. task F cv K s = Inr s' \<and> refgray = Ptr a rg \<longrightarrow>
            (\<exists>t i c k. hd (ecc_calls (trace s')) =
               Call_findTransformECC t i
                 (scale_translation F (pass_ratio F 256 (img rg)) start)
                 MOTION_AFFINE c k)))"
proof -
  note new = Task_Align_new_Inr [OF assms(1)]
  have distinct: "\<not> ptr_eq (m_refcolor s) (m_srccolor s)"
    using assms(2) new by simp
  let ?start = "case initial_guess of Null \<Rightarrow> m_transformation s
                | Ptr _ g \<Rightarrow> solved_transformation g"
  have seed: "m_transformation (seed_transformation s) = ?start"
    by (simp add: seed_transformation_def new split: shared_ptr.splits)
  have seed_trace: "trace (seed_transformation s) = []"
    by (subst seed_transformation_frame) (simp add: new)
  have entry: "task_body F cv K s = registration F cv K s0 \<and>
               m_transformation s0 = ?start \<and> trace s0 = []"
    if "compute_roi (seed_transformation s) = Inr s0" for s0
  proof -
    from compute_roi_fields [OF that]
    have "m_transformation s0 = m_transformation (seed_transformation s)"
      and "trace s0 = trace (seed_transformation s)"
      by simp_all
    with that distinct seed seed_trace show ?thesis
      by (simp add: task_body_def)
  qed
  have first: "\<exists>t i c k. hd (ecc_calls (trace s')) =
               Call_findTransformECC t i
                 (scale_translation F (pass_ratio F 256 (img rg)) ?start)
                 MOTION_AFFINE c k"
    if run: "task F cv K s = Inr s'" and rg: "refgray = Ptr a rg" for s' a rg
  proof -
    from task_Inr_distinct [OF distinct run] obtain s0 s5 where
      roi: "compute_roi (seed_transformation s) = Inr s0" and
      s0: "s0 = s\<lparr>m_transformation := m_transformation (seed_transformation s),
                   m_roi := m_roi s0\<rparr>" and
      reg: "registration F cv K s0 = Inr s5" and s': "s' = release_dependencies s5"
      by blast
    have rg0: "m_refgray s0 = Ptr a rg"
      by (subst s0) (simp add: new rg)
    have t0: "m_transformation s0 = ?start" and tr0: "trace s0 = []"
      using entry [OF roi] by simp_all
    from registration_Inr_ptrs [OF reg] rg0 obtain b sg c sc where
      sg0: "m_srcgray s0 = Ptr b sg" and sc0: "m_srccolor s0 = Ptr c sc" by auto
    from registration_passes [OF reg rg0 sg0 sc0] tr0
    have "hd (ecc_calls (trace s5)) = pass_call F cv 256 True s0 (img rg) (img sg)"
      by auto
    then show ?thesis
      by (simp add: s' release_dependencies_def pass_call_def t0)
  qed
  have ident: "m_transformation s =
       ((f_of_int F 1, f_of_int F 0, f_of_int F 0), (f_of_int F 0, f_of_int F 1, f_of_int F 0))"
    using new(1) by (simp add: identity23_def)
  show ?thesis
    unfolding Let_def
    apply (rule conjI [OF ident])
    apply (rule conjI)
     apply (intro allI impI)
     apply (erule entry)
    apply (intro allI impI)
    apply (erule conjE)
    apply (erule (1) first)
    done
qed

lemma example_task_new:
  "Task_Align_new exact_ops
     (Ptr 1 (image_task ''a.jpg'' (gray2x2 100))) (Ptr 2 (image_task ''a.jpg'' (color2x2 100)))
     (Ptr 3 (image_task ''b.jpg'' (gray2x2 50))) (Ptr 4 (image_task ''b.jpg'' (color2x2 50)))
     g c fl = Inr (example_task g c fl)"
  by (simp add: example_task_def Task_Align_new_def)

lemma example_entry:
  "compute_roi (seed_transformation (example_task example_guess Null 3)) =
     Inr ((example_task example_guess Null 3)
            \<lparr>m_transformation := ((1, 0, 3), (0, 1, 4)), m_roi := Rect 0 0 2 2\<rparr>)"
  by (simp add: compute_roi_def seed_transformation_def example_task_def Task_Align_new_def
        example_guess_def image_task_def color2x2_def)

theorem starting_transformation_witness:
  "Task_Align_new exact_ops
     (Ptr 1 (image_task ''a.jpg'' (gray2x2 100))) (Ptr 2 (image_task ''a.jpg'' (color2x2 100)))
     (Ptr 3 (image_task ''b.jpg'' (gray2x2 50))) (Ptr 4 (image_task ''b.jpg'' (color2x2 50)))
     example_guess Null 3 = Inr (example_task example_guess Null 3) \<and>
   \<not> ptr_eq (Ptr 2 (image_task ''a.jpg'' (color2x2 100)))
            (Ptr 4 (image_task ''b.jpg'' (color2x2 50))) \<and>
   m_transformation (example_task example_guess Null 3) = ((1, 0, 0), (0, 1, 0)) \<and>
   compute_roi (seed_transformation (example_task example_guess Null 3)) =
     Inr ((example_task example_guess Null 3)
            \<lparr>m_transformation := ((1, 0, 3), (0, 1, 4)), m_roi := Rect 0 0 2 2\<rparr>) \<and>
   task_body exact_ops (stub_cv True) stub_flags (example_task example_guess Null 3) =
     registration exact_ops (stub_cv True) stub_flags
       ((example_task example_guess Null 3)
            \<lparr>m_transformation := ((1, 0, 3), (0, 1, 4)), m_roi := Rect 0 0 2 2\<rparr>) \<and>
   trace ((example_task example_guess Null 3)
            \<lparr>m_transformation := ((1, 0, 3), (0, 1, 4)), m_roi := Rect 0 0 2 2\<rparr>) = []"
proof -
  have distinct: "\<not> ptr_eq (Ptr 2 (image_task ''a.jpg'' (color2x2 100)))
                            (Ptr 4 (image_task ''b.jpg'' (color2x2 50)))"
    by simp
  note T = starting_transformation [OF example_task_new distinct,
             of example_guess Null 3 "stub_cv True" stub_flags, unfolded Let_def]
  from T have ident: "m_transformation (example_task example_guess Null 3)
                        = ((1, 0, 0), (0, 1, 0))"
    by (simp add: exact_ops_def)
  from T example_entry
  have "task_body exact_ops (stub_cv True) stub_flags (example_task example_guess Null 3) =
     registration exact_ops (stub_cv True) stub_flags
       ((example_task example_guess Null 3)
            \<lparr>m_transformation := ((1, 0, 3), (0, 1, 4)), m_roi := Rect 0 0 2 2\<rparr>) \<and>
     trace ((example_task example_guess Null 3)
            \<lparr>m_transformation := ((1, 0, 3), (0, 1, 4)), m_roi := Rect 0 0 2 2\<rparr>) = []"
    by blast
  with ident example_entry example_task_new distinct show ?thesis by blast
qed

section \<open>Failure of the ECC solver\<close>

lemma sound_InlI:
  "m_result s' = m_result s \<Longrightarrow> clean cv (trace s') \<Longrightarrow> sound cv s (Inl (err, s'))"
  by (simp add: sound_def clean_def)

lemma sound_and_then:
  assumes "sound cv s r"
    and "\<And>t. r = Inr t \<Longrightarrow> m_result t = m_result s \<and> sound cv t (k t)"
  shows "sound cv s (and_then r k)"
proof (cases r)
  case (Inl a)
  with assms(1) show ?thesis by simp
next
  case (Inr t)
  from assms(2) [OF Inr] have m: "m_result t = m_result s" and k: "sound cv t (k t)"
    by simp_all
  from k m Inr show ?thesis
    by (cases "k t") (auto simp: sound_def)
qed

lemma sound_match_transform:
  assumes "clean cv (trace s)"
  shows "sound cv s (match_transform F cv cap rough s)"
proof (cases "m_refgray s")
  case Null
  with assms show ?thesis
    by (simp add: match_transform_null_ref sound_InlI)
next
  case rg: (Ptr a rg)
  show ?thesis
  proof (cases "m_srcgray s")
    case Null
    with assms rg show ?thesis
      by (simp add: match_transform_null_src sound_def clean_def)
  next
    case sg: (Ptr b sg)
    show ?thesis
      unfolding match_transform_unfold [OF rg sg]
      using assms
      by (cases "answer cv (pass_call F cv cap rough s (img rg) (img sg))")
         (auto simp: sound_def clean_def split: sum.splits)
  qed
qed

lemma sound_quiet_step:
  assumes "clean cv (trace s)"
    and "ecc_calls (trace (state_of out)) = ecc_calls (trace s)"
    and "m_result (state_of out) = m_result s \<or> (\<exists>t. out = Inr t)"
  shows "sound cv s out"
  using assms by (cases out) (auto simp: sound_def clean_def)

lemma sound_final_match_transform:
  assumes "clean cv (trace s)"
  shows "sound cv s (final_match_transform F cv K s)"
proof (cases "m_srccolor s")
  case Null
  with assms show ?thesis
    by (auto simp: final_match_transform_def sound_InlI sound_match_transform)
next
  case (Ptr c sc)
  with assms show ?thesis
    by (simp add: final_match_transform_eq sound_match_transform)
qed

lemma clean_Inr: "sound cv s (Inr t) \<Longrightarrow> clean cv (trace t)"
  by (simp add: sound_def)

lemma sound_registration:
  assumes "clean cv (trace s)"
  shows "sound cv s (registration F cv K s)"
  unfolding registration_def
proof (rule sound_and_then [OF sound_match_transform [OF assms]], rule conjI)
  fix s1 assume st1: "match_transform F cv 256 True s = Inr s1"
  from match_transform_frame [OF st1] show m1: "m_result s1 = m_result s" by simp
  from sound_match_transform [OF assms, where F=F and cap=256 and rough=True] st1 have c1: "clean cv (trace s1)"
    by (simp add: sound_def)
  let ?r2 = "if \<not> flag_set (m_flags s1) (ALIGN_NO_CONTRAST K)
             then match_contrast F cv s1 else Inr s1"
  have q2: "ecc_calls (trace (state_of ?r2)) = ecc_calls (trace s1)"
           "m_result (state_of ?r2) = m_result s1"
    using match_contrast_frame [where F=F and cv=cv and s=s1, OF refl]
      match_contrast_ecc_calls [where F=F and cv=cv and s=s1, OF refl]
    by auto
  show "sound cv s1 (and_then ?r2 (\<lambda>s.
          and_then (if \<not> flag_set (m_flags s) (ALIGN_NO_WHITEBALANCE K)
                    then match_whitebalance F cv s else Inr s) (\<lambda>s.
          and_then (final_match_transform F cv K s) (\<lambda>s. produce_result F cv K s))))"
  proof (rule sound_and_then [OF sound_quiet_step [OF c1 q2(1)]], simp add: q2(2), rule conjI)
    fix s2 assume st2: "?r2 = Inr s2"
    with q2 show m2: "m_result s2 = m_result s1" by simp
    from st2 q2 c1 have c2: "clean cv (trace s2)" by (simp add: clean_def)
    let ?r3 = "if \<not> flag_set (m_flags s2) (ALIGN_NO_WHITEBALANCE K)
               then match_whitebalance F cv s2 else Inr s2"
    have q3: "ecc_calls (trace (state_of ?r3)) = ecc_calls (trace s2)"
             "m_result (state_of ?r3) = m_result s2"
      using match_whitebalance_frame [where F=F and cv=cv and s=s2, OF refl]
        match_whitebalance_ecc_calls [where F=F and cv=cv and s=s2, OF refl]
      by auto
    show "sound cv s2 (and_then ?r3 (\<lambda>s.
            and_then (final_match_transform F cv K s) (\<lambda>s. produce_result F cv K s)))"
    proof (rule sound_and_then [OF sound_quiet_step [OF c2 q3(1)]], simp add: q3(2), rule conjI)
      fix s3 assume st3: "?r3 = Inr s3"
      with q3 show "m_result s3 = m_result s2" by simp
      from st3 q3 c2 have c3: "clean cv (trace s3)" by (simp add: clean_def)
      show "sound cv s3 (and_then (final_match_transform F cv K s3)
                           (\<lambda>s. produce_result F cv K s))"
      proof (rule sound_and_then [OF sound_final_match_transform [OF c3]], rule conjI)
        fix s4 assume st4: "final_match_transform F cv K s3 = Inr s4"
        from final_match_transform_frame [OF st4] show "m_result s4 = m_result s3" by simp
        from sound_final_match_transform [OF c3, where F=F and K=K] st4 have c4: "clean cv (trace s4)"
          by (simp add: sound_def)
        show "sound cv s4 (produce_result F cv K s4)"
        proof (rule sound_quiet_step [OF c4 produce_result_ecc_calls [OF refl]])
          show "m_result (state_of (produce_result F cv K s4)) = m_result s4 \<or>
                (\<exists>t. produce_result F cv K s4 = Inr t)"
            by (cases "m_srccolor s4") (simp_all add: produce_result_def Let_def)
        qed
      qed
    qed
  qed
qed

lemma sound_task:
  assumes "trace s = []"
  shows "sound cv s (task F cv K s)"
proof -
  have clean0: "clean cv (trace s)"
    using assms by (simp add: clean_def)
  have body: "sound cv s (task_body F cv K s)"
  proof (cases "ptr_eq (m_refcolor s) (m_srccolor s)")
    case True
    show ?thesis
    proof (cases "m_srccolor s")
      case Null
      with True clean0 show ?thesis
        by (simp add: task_body_def sound_InlI)
    next
      case (Ptr c sc)
      with True clean0 show ?thesis
        by (simp add: task_body_def sound_def clean_def)
    qed
  next
    case False
    have seed: "trace (seed_transformation s) = trace s"
               "m_result (seed_transformation s) = m_result s"
      by (subst seed_transformation_frame, simp)+
    have clean1: "clean cv (trace (seed_transformation s))"
      using clean0 seed by simp
    have entry: "sound cv s (compute_roi (seed_transformation s))"
    proof (cases "m_cropinfo (seed_transformation s)")
      case (Ptr a ci)
      with clean1 show ?thesis
        by (simp add: compute_roi_def Let_def sound_def)
    next
      case Null
      with clean1 seed show ?thesis
        by (cases "m_srccolor (seed_transformation s)")
           (simp_all add: compute_roi_def sound_InlI, simp add: sound_def)
    qed
    have "sound cv s (and_then (compute_roi (seed_transformation s))
                        (\<lambda>s. registration F cv K s))"
    proof (rule sound_and_then [OF entry], rule conjI)
      fix s0 assume roi: "compute_roi (seed_transformation s) = Inr s0"
      then show "m_result s0 = m_result s"
        using seed by (auto simp: compute_roi_def Let_def split: shared_ptr.splits)
      from compute_roi_fields [OF roi] seed clean0 have "clean cv (trace s0)"
        by simp
      then show "sound cv s0 (registration F cv K s0)"
        by (rule sound_registration)
    qed
    with False show ?thesis by (simp add: task_body_def)
  qed
  show ?thesis
  proof (cases "task_body F cv K s")
    case (Inl a)
    with body show ?thesis by (simp add: task_def)
  next
    case (Inr t)
    with body show ?thesis
      by (simp add: task_def sound_def release_dependencies_def)
  qed
qed

lemma cleanD:
  "clean cv tr \<Longrightarrow> ev \<in> set (ecc_calls tr) \<Longrightarrow> answer cv ev = Some (Inl (e, left)) \<Longrightarrow> False"
  unfolding clean_def by blast

lemma soundD_Inl:
  "sound cv s (Inl (err, s')) \<Longrightarrow> ev \<in> set (ecc_calls (trace s')) \<Longrightarrow>
   answer cv ev = Some (Inl (e, left)) \<Longrightarrow>
   m_result s' = m_result s \<and> err = Exception e \<and> m_transformation s' = left"
  unfolding sound_def sum.case prod.case by blast

text \<open>
  C9. Whatever the run of a fresh task does: if its trace holds an ECC call that the
  solver answers by throwing, then the run has ended abnormally with the exception
  that was thrown, the result of the task is what it was before the run, and the
  matrix of the task is what the solver left behind.
\<close>

theorem ecc_failure_propagates:
  assumes "trace s = []"
  shows "\<forall>t i w mo c k e left.
           Call_findTransformECC t i w mo c k \<in> set (trace (state_of (task F cv K s))) \<and>
           cv_findTransformECC cv t i w mo c k = Inl (e, left) \<longrightarrow>
           task F cv K s = Inl (Exception e, state_of (task F cv K s)) \<and>
           m_result (state_of (task F cv K s)) = m_result s \<and>
           m_transformation (state_of (task F cv K s)) = left"
proof (intro allI impI, elim conjE)
  fix t i w mo c k e left
  assume mem: "Call_findTransformECC t i w mo c k \<in> set (trace (state_of (task F cv K s)))"
    and threw: "cv_findTransformECC cv t i w mo c k = Inl (e, left)"
  let ?ev = "Call_findTransformECC t i w mo c k"
  have ev: "?ev \<in> set (ecc_calls (trace (state_of (task F cv K s))))"
    using mem by (simp add: ecc_calls_def)
  have ans: "answer cv ?ev = Some (Inl (e, left))"
    using threw by simp
  note snd = sound_task [OF assms, of cv F K]
  show "task F cv K s = Inl (Exception e, state_of (task F cv K s)) \<and>
        m_result (state_of (task F cv K s)) = m_result s \<and>
        m_transformation (state_of (task F cv K s)) = left"
  proof (cases "task F cv K s")
    case (Inr s')
    with snd have "clean cv (trace s')" by (simp add: sound_def)
    with ev ans Inr have False by (auto dest: cleanD)
    then show ?thesis ..
  next
    case (Inl p)
    obtain err s' where p: "p = (err, s')" by (cases p)
    from snd ev ans soundD_Inl [of cv s err s' ?ev e left] show ?thesis
      unfolding Inl p by simp
  qed
qed

lemma example_failed_run:
  "task exact_ops (stub_cv False) stub_flags (example_task Null Null 3) =
     Inl (Exception (cv_Exception ''StsNoConv''), example_failed)"
  by code_simp

theorem ecc_failure_propagates_witness:
  "trace (example_task Null Null 3) = [] \<and>
   Call_findTransformECC (gray2x2 100) (gray2x2 50) ((1, 0, 0), (0, 1, 0)) MOTION_AFFINE
     \<lparr>crit_COUNT = True, crit_EPS = True, maxCount = 25, epsilon = 1 / 100\<rparr>
     \<lparr>rows = 2, cols = 2, channels = 1, data = [[255], [255], [255], [255]]\<rparr>
     \<in> set (trace (state_of (task exact_ops (stub_cv False) stub_flags
                                (example_task Null Null 3)))) \<and>
   cv_findTransformECC (stub_cv False) (gray2x2 100) (gray2x2 50) ((1, 0, 0), (0, 1, 0))
     MOTION_AFFINE
     \<lparr>crit_COUNT = True, crit_EPS = True, maxCount = 25, epsilon = 1 / 100\<rparr>
     \<lparr>rows = 2, cols = 2, channels = 1, data = [[255], [255], [255], [255]]\<rparr>
     = Inl (cv_Exception ''StsNoConv'', ((1, 0, 0), (0, 1, 0))) \<and>
   task exact_ops (stub_cv False) stub_flags (example_task Null Null 3) =
     Inl (Exception (cv_Exception ''StsNoConv''),
          state_of (task exact_ops (stub_cv False) stub_flags (example_task Null Null 3))) \<and>
   m_result (state_of (task exact_ops (stub_cv False) stub_flags (example_task Null Null 3)))
     = m_result (example_task Null Null 3) \<and>
   m_transformation
     (state_of (task exact_ops (stub_cv False) stub_flags (example_task Null Null 3)))
     = ((1, 0, 0), (0, 1, 0))"
proof -
  let ?ex = "example_task Null Null 3"
  have mem: "Call_findTransformECC (gray2x2 100) (gray2x2 50) ((1, 0, 0), (0, 1, 0)) MOTION_AFFINE
     \<lparr>crit_COUNT = True, crit_EPS = True, maxCount = 25, epsilon = 1 / 100\<rparr>
     \<lparr>rows = 2, cols = 2, channels = 1, data = [[255], [255], [255], [255]]\<rparr>
     \<in> set (trace (state_of (task exact_ops (stub_cv False) stub_flags ?ex)))"
    by (simp add: example_failed_run example_failed_def)
  have threw: "cv_findTransformECC (stub_cv False) (gray2x2 100) (gray2x2 50)
     ((1, 0, 0), (0, 1, 0)) MOTION_AFFINE
     \<lparr>crit_COUNT = True, crit_EPS = True, maxCount = 25, epsilon = 1 / 100\<rparr>
     \<lparr>rows = 2, cols = 2, channels = 1, data = [[255], [255], [255], [255]]\<rparr>
     = Inl (cv_Exception ''StsNoConv'', ((1, 0, 0), (0, 1, 0)))"
    by (simp add: stub_cv_def)
  from ecc_failure_propagates [where s = "example_task Null Null 3" and F = exact_ops
         and cv = "stub_cv False" and K = stub_flags,
         OF example_ptrs(5), rule_format, OF conjI, OF mem threw]
  show ?thesis
    using example_ptrs(5) [of Null Null 3] mem threw by blast
qed

end
